theory Spec2Isabelle
  imports Main
begin

section \<open>JavaScript values as the tools use them\<close>

text \<open>
  Strings are \<open>string\<close>: lists of 8-bit characters, read as the code units below 256 of a
  JavaScript string. Integers are \<open>int\<close>; an optional or nullable field is an \<open>option\<close>,
  with \<open>None\<close> for \<open>undefined\<close> and \<open>null\<close>.
\<close>

subsection \<open>Column letters (tools/search.tools.js and tools/sheet.tools.js)\<close>

text \<open>
  \<^verbatim>\<open>
  function columnIndexToLetter(index) {
    let letter = '';
    while (index >= 0) {
      letter = String.fromCharCode((index % 26) + 65) + letter;
      index = Math.floor(index / 26) - 1;
    }
    return letter;
  }
  \<close>
  The loop is the recursive function below, on the pair of the two variables the loop
  assigns. The remainder is taken only when \<open>index\<close> is not negative, where JavaScript's
  \<open>%\<close> and \<open>mod\<close> agree. \<open>index\<close> is the index of a cell in its row, an integer far below
  \<open>2^47\<close>, where \<open>Math.floor(index / 26)\<close> is the integer quotient; \<open>String.fromCharCode\<close>
  is applied to 65 to 90 only.
\<close>

function columnIndexToLetter_loop :: "int \<Rightarrow> string \<Rightarrow> string" where
  "columnIndexToLetter_loop index letter =
     (if index \<ge> 0
      then columnIndexToLetter_loop (index div 26 - 1) (char_of (index mod 26 + 65) # letter)
      else letter)"
  by pat_completeness auto
termination
  by (relation "measure (\<lambda>(index, letter). nat (index + 1))") auto

definition columnIndexToLetter :: "int \<Rightarrow> string" where
  "columnIndexToLetter index = columnIndexToLetter_loop index []"

text \<open>
  The specification's side of the comparison: the usual reading of spreadsheet column
  letters, \<open>A\<close> = 1 to \<open>Z\<close> = 26 as the digits of a base-26 numeral without zero, shifted to a
  zero-based index.
\<close>

definition letterValue :: "int \<Rightarrow> char \<Rightarrow> int" where
  "letterValue acc c = acc * 26 + (of_char c - 64)"

definition columnLetterParse :: "string \<Rightarrow> int" where
  "columnLetterParse s = foldl letterValue 0 s - 1"

definition isUpper :: "char \<Rightarrow> bool" where
  "isUpper c = (65 \<le> (of_char c :: int) \<and> (of_char c :: int) \<le> 90)"

definition isColumnLetters :: "string \<Rightarrow> bool" where
  "isColumnLetters s = (s \<noteq> [] \<and> list_all isUpper s)"


subsection \<open>Strings, numbers and arrays\<close>

text \<open>
  \<open>toLowerCase\<close> on code units below 256: the capital letters \<open>A\<close> to \<open>Z\<close> and the
  capital letters of Latin-1 (0xC0 to 0xDE without the multiplication sign 0xD7) move up
  by 32; every other character stays.
\<close>

definition toLowerChar :: "char \<Rightarrow> char" where
  "toLowerChar c =
     (let n = (of_char c :: nat)
      in if (65 \<le> n \<and> n \<le> 90) \<or> (192 \<le> n \<and> n \<le> 222 \<and> n \<noteq> 215)
         then char_of (n + 32) else c)"

definition toLowerCase :: "string \<Rightarrow> string" where
  "toLowerCase s = map toLowerChar s"

fun startsWith :: "string \<Rightarrow> string \<Rightarrow> bool" where
  "startsWith s [] = True"
| "startsWith [] (p # ps) = False"
| "startsWith (c # s) (p # ps) = (c = p \<and> startsWith s ps)"

text \<open>\<open>s.includes(t)\<close>: some position of \<open>s\<close> starts with \<open>t\<close>.\<close>

fun includes_js :: "string \<Rightarrow> string \<Rightarrow> bool" where
  "includes_js [] t = (t = [])"
| "includes_js (c # s) t = (startsWith (c # s) t \<or> includes_js s t)"

text \<open>
  \<open>toString\<close> of an integer-valued number (below \<open>10^21\<close> in size), and its interpolation
  into a template string: decimal digits, with a minus sign for a negative number.
\<close>

fun digits :: "nat \<Rightarrow> string" where
  "digits n =
     (if n < 10 then [char_of (48 + n)] else digits (n div 10) @ [char_of (48 + n mod 10)])"

definition toString :: "int \<Rightarrow> string" where
  "toString n = (if n < 0 then CHR ''-'' # digits (nat (- n)) else digits (nat n))"

text \<open>
  \<open>xs.forEach((x, i) => ...)\<close>: the callback runs on every element in order, with its
  index; what a callback returns is dropped. The state \<open>s\<close> holds the variables the
  callback assigns.
\<close>

fun forEach :: "('a \<Rightarrow> nat \<Rightarrow> 's \<Rightarrow> 's) \<Rightarrow> 'a list \<Rightarrow> nat \<Rightarrow> 's \<Rightarrow> 's" where
  "forEach f [] i s = s"
| "forEach f (x # xs) i s = forEach f xs (Suc i) (f x i s)"

text \<open>\<open>xs.slice(0, end)\<close> for an integer \<open>end\<close>; a negative \<open>end\<close> counts from the back.\<close>

definition slice0 :: "int \<Rightarrow> 'a list \<Rightarrow> 'a list" where
  "slice0 end xs =
     (if end < 0 then take (nat (int (length xs) + end)) xs else take (nat end) xs)"

fun join :: "string \<Rightarrow> string list \<Rightarrow> string" where
  "join sep [] = []"
| "join sep [x] = x"
| "join sep (x # y # ys) = x @ sep @ join sep (y # ys)"

text \<open>
  Truthiness of an optional string (\<open>undefined\<close>, \<open>null\<close> and \<open>''\<close> are falsy) and the
  operator \<open>||\<close> on optional strings and numbers (0 is falsy).
\<close>

definition truthy :: "string option \<Rightarrow> bool" where
  "truthy v = (case v of None \<Rightarrow> False | Some s \<Rightarrow> s \<noteq> [])"

definition or_else :: "string option \<Rightarrow> string option \<Rightarrow> string option" where
  "or_else a b = (if truthy a then a else b)"

definition or_string :: "string option \<Rightarrow> string \<Rightarrow> string" where
  "or_string v d = (case v of None \<Rightarrow> d | Some s \<Rightarrow> if s = [] then d else s)"

definition or_default :: "int option \<Rightarrow> int \<Rightarrow> int" where
  "or_default v d = (case v of None \<Rightarrow> d | Some n \<Rightarrow> if n = 0 then d else n)"

text \<open>
  A thrown error with its message. \<open>ApiError m am st\<close> is an error of the googleapis
  library: its own message \<open>m\<close> and, in \<open>response.data.error\<close>, the message \<open>am\<close> and the
  status \<open>st\<close> of the upstream error.
\<close>

datatype error = Error string | TypeError string | ApiError string string string


section \<open>The URL parser (utils/url-parser.js)\<close>

subsection \<open>The two regular expressions\<close>

text \<open>
  \<open>/\/spreadsheets\/d\/([a-zA-Z0-9-_]+)/\<close> and \<open>/#gid=(\d+)/\<close> are both a literal followed by
  one captured, greedy run of a character class. \<open>matchAfter lit cls s\<close> is the capture of
  the leftmost match: the first position of \<open>s\<close> that starts with \<open>lit\<close> and goes on with
  at least one character of \<open>cls\<close>, and there the longest run of \<open>cls\<close>.
\<close>

definition isIdChar :: "char \<Rightarrow> bool" where
  "isIdChar c =
     (let n = (of_char c :: nat)
      in (97 \<le> n \<and> n \<le> 122) \<or> (65 \<le> n \<and> n \<le> 90) \<or> (48 \<le> n \<and> n \<le> 57)
         \<or> c = CHR ''-'' \<or> c = CHR ''_'')"

definition isDigit :: "char \<Rightarrow> bool" where
  "isDigit c = (let n = (of_char c :: nat) in 48 \<le> n \<and> n \<le> 57)"

fun matchAfter :: "string \<Rightarrow> (char \<Rightarrow> bool) \<Rightarrow> string \<Rightarrow> string option" where
  "matchAfter lit cls [] = None"
| "matchAfter lit cls (c # s) =
     (if startsWith (c # s) lit \<and> takeWhile cls (drop (length lit) (c # s)) \<noteq> []
      then Some (takeWhile cls (drop (length lit) (c # s)))
      else matchAfter lit cls s)"

subsection \<open>The platform's URL object\<close>

text \<open>
  \<open>new URL(url).searchParams.get(name)\<close> is the platform's, not the repository's. What the
  parser needs of it is modelled after the URL standard, for a string that starts with
  \<open>http://\<close> or \<open>https://\<close>:
  \<^item> leading and trailing C0 controls and spaces are cut, tabs and newlines are removed;
  \<^item> the query runs from behind the first \<open>?\<close> to the first \<open>#\<close>, the \<open>?\<close> coming first;
  \<^item> the query is cut at every \<open>&\<close>, empty pieces are dropped, each piece is cut at its
    first \<open>=\<close>, \<open>+\<close> becomes a space, and \<open>%XX\<close> becomes the character with that code
    (the standard reads the decoded bytes as UTF-8; here a decoded byte is kept as it is);
  \<^item> \<open>get\<close> is the value of the first pair with the name.
  Whether the constructor accepts the string at all (it throws a \<open>TypeError\<close> on a host
  it cannot parse) is a parameter \<open>accepted\<close> of the functions below.
\<close>

definition isC0OrSpace :: "char \<Rightarrow> bool" where
  "isC0OrSpace c = ((of_char c :: nat) \<le> 32)"

definition isTabOrNewline :: "char \<Rightarrow> bool" where
  "isTabOrNewline c = ((of_char c :: nat) \<in> {9, 10, 13})"

definition url_input :: "string \<Rightarrow> string" where
  "url_input url =
     filter (\<lambda>c. \<not> isTabOrNewline c)
       (rev (dropWhile isC0OrSpace (rev (dropWhile isC0OrSpace url))))"

definition url_query :: "string \<Rightarrow> string" where
  "url_query url =
     (case dropWhile (\<lambda>c. c \<noteq> CHR ''?'') (takeWhile (\<lambda>c. c \<noteq> CHR ''#'') (url_input url)) of
        [] \<Rightarrow> []
      | q # query \<Rightarrow> query)"

definition hexValue :: "char \<Rightarrow> nat option" where
  "hexValue c =
     (let n = (of_char c :: nat)
      in if 48 \<le> n \<and> n \<le> 57 then Some (n - 48)
         else if 65 \<le> n \<and> n \<le> 70 then Some (n - 55)
         else if 97 \<le> n \<and> n \<le> 102 then Some (n - 87)
         else None)"

fun percentDecode :: "string \<Rightarrow> string" where
  "percentDecode (p # h # l # s) =
     (if p = CHR ''%'' then
        (case (hexValue h, hexValue l) of
           (Some a, Some b) \<Rightarrow> char_of (16 * a + b) # percentDecode s
         | _ \<Rightarrow> p # percentDecode (h # l # s))
      else p # percentDecode (h # l # s))"
| "percentDecode s = s"

fun split :: "char \<Rightarrow> string \<Rightarrow> string list" where
  "split sep [] = [[]]"
| "split sep (c # s) =
     (if c = sep then [] # split sep s
      else (case split sep s of [] \<Rightarrow> [[c]] | piece # pieces \<Rightarrow> (c # piece) # pieces))"

definition plusToSpace :: "string \<Rightarrow> string" where
  "plusToSpace s = map (\<lambda>c. if c = CHR ''+'' then CHR '' '' else c) s"

definition urlencodedPair :: "string \<Rightarrow> string \<times> string" where
  "urlencodedPair piece =
     (percentDecode (plusToSpace (takeWhile (\<lambda>c. c \<noteq> CHR ''='') piece)),
      percentDecode (plusToSpace (drop 1 (dropWhile (\<lambda>c. c \<noteq> CHR ''='') piece))))"

definition searchParams :: "string \<Rightarrow> (string \<times> string) list" where
  "searchParams url =
     map urlencodedPair (filter (\<lambda>piece. piece \<noteq> []) (split (CHR ''&'') (url_query url)))"

definition searchParams_get :: "string \<Rightarrow> string \<Rightarrow> string option" where
  "searchParams_get url name = map_of (searchParams url) name"

subsection \<open>parseGoogleSheetsUrl and parseSpreadsheetInput\<close>

text \<open>
  The result \<open>{spreadsheetId, gid}\<close> is the pair of the id and the optional gid; a thrown
  error is \<open>Inl\<close>. The source, in its order:
  \<^verbatim>\<open>
  const spreadsheetMatch = url.match(/\/spreadsheets\/d\/([a-zA-Z0-9-_]+)/);
  if (!spreadsheetMatch) { throw new Error('Invalid Google Sheets URL. ...'); }
  const spreadsheetId = spreadsheetMatch[1];
  let gid = null;
  const urlObj = new URL(url);
  const gidParam = urlObj.searchParams.get('gid');
  if (gidParam) { gid = gidParam; }
  if (!gid && url.includes('#gid=')) {
    const hashMatch = url.match(/#gid=(\d+)/);
    if (hashMatch) { gid = hashMatch[1]; }
  }
  return { spreadsheetId, gid };
  \<close>
\<close>

definition parseGoogleSheetsUrl ::
  "(string \<Rightarrow> bool) \<Rightarrow> string \<Rightarrow> error + string \<times> string option" where
  "parseGoogleSheetsUrl accepted url =
     (case matchAfter ''/spreadsheets/d/'' isIdChar url of
        None \<Rightarrow>
          Inl (Error (''Invalid Google Sheets URL. Expected format: '' @
                      ''https://docs.google.com/spreadsheets/d/{SPREADSHEET_ID}/edit''))
      | Some spreadsheetId \<Rightarrow>
          if \<not> accepted url then Inl (TypeError ''Invalid URL'')
          else
            let gidParam = searchParams_get url ''gid'';
                gid = (if truthy gidParam then gidParam else None);
                gid = (if \<not> truthy gid \<and> includes_js url ''#gid=''
                       then (case matchAfter ''#gid='' isDigit url of
                               Some hashMatch \<Rightarrow> Some hashMatch
                             | None \<Rightarrow> gid)
                       else gid)
            in Inr (spreadsheetId, gid))"

definition parseSpreadsheetInput ::
  "(string \<Rightarrow> bool) \<Rightarrow> string option \<Rightarrow> error + string \<times> string option" where
  "parseSpreadsheetInput accepted input =
     (case input of
        None \<Rightarrow> Inl (Error ''Spreadsheet ID or URL is required'')
      | Some inp \<Rightarrow>
          if inp = [] then Inl (Error ''Spreadsheet ID or URL is required'')
          else if startsWith inp ''http://'' \<or> startsWith inp ''https://''
          then parseGoogleSheetsUrl accepted inp
          else Inr (inp, None))"


text \<open>
  For the statements about URLs: the usual form of a sheet's URL, with what follows
  \<open>/edit\<close>, and the characters of a query value that reach \<open>searchParams\<close> unchanged
  (printable ASCII other than \<open>#\<close>, \<open>&\<close>, \<open>+\<close> and \<open>%\<close>).
\<close>

definition isQueryValueChar :: "char \<Rightarrow> bool" where
  "isQueryValueChar c =
     (let n = (of_char c :: nat)
      in 33 \<le> n \<and> n \<le> 126 \<and> c \<noteq> CHR ''#'' \<and> c \<noteq> CHR ''&'' \<and> c \<noteq> CHR ''+''
         \<and> c \<noteq> CHR ''%'')"

definition sheetsUrl :: "string \<Rightarrow> string \<Rightarrow> string" where
  "sheetsUrl spreadsheetId rest =
     ''https://docs.google.com/spreadsheets/d/'' @ spreadsheetId @ ''/edit'' @ rest"


section \<open>The first client: class GoogleSheetsClient, and its handlers\<close>

subsection \<open>JSON values\<close>

text \<open>
  What \<open>JSON.parse\<close> returns, and \<open>undefined\<close>. An object is the list of its properties.
  \<open>readProperty x name\<close> is \<open>x.name\<close>, which throws on null and undefined;
  \<open>readOptional x name\<close> is \<open>x?.name\<close>. Both are for the names the client reads
  (\<open>sheets\<close>, \<open>properties\<close>, \<open>title\<close>, ...), which no string, number or array has.
\<close>

datatype js =
    JUndefined | JNull | JBool bool | JNum int | JStr string
  | JArr "js list" | JObj "(string \<times> js) list"

definition readProperty :: "js \<Rightarrow> string \<Rightarrow> error + js" where
  "readProperty x name =
     (case x of
        JUndefined \<Rightarrow> Inl (TypeError (''Cannot read properties of undefined (reading '' @ name @ '')''))
      | JNull \<Rightarrow> Inl (TypeError (''Cannot read properties of null (reading '' @ name @ '')''))
      | JObj kvs \<Rightarrow> Inr (case map_of kvs name of None \<Rightarrow> JUndefined | Some v \<Rightarrow> v)
      | _ \<Rightarrow> Inr JUndefined)"

definition readOptional :: "js \<Rightarrow> string \<Rightarrow> js" where
  "readOptional x name =
     (case x of
        JObj kvs \<Rightarrow> (case map_of kvs name of None \<Rightarrow> JUndefined | Some v \<Rightarrow> v)
      | _ \<Rightarrow> JUndefined)"

text \<open>\<open>xs.map(f)\<close> for a callback that may throw: the first throw ends the map.\<close>

fun mapThrowing :: "('a \<Rightarrow> error + 'b) \<Rightarrow> 'a list \<Rightarrow> error + 'b list" where
  "mapThrowing f [] = Inr []"
| "mapThrowing f (x # xs) =
     (case f x of
        Inl e \<Rightarrow> Inl e
      | Inr y \<Rightarrow> (case mapThrowing f xs of Inl e \<Rightarrow> Inl e | Inr ys \<Rightarrow> Inr (y # ys)))"

definition message :: "error \<Rightarrow> string" where
  "message e = (case e of Error m \<Rightarrow> m | TypeError m \<Rightarrow> m | ApiError m am st \<Rightarrow> m)"

subsection \<open>The outside world of one operation\<close>

text \<open>
  An HTTP exchange ends with a response, \<open>Reply statusCode body parsed\<close>, or with the
  request's \<open>error\<close> event, \<open>NoReply message\<close>. \<open>parsed\<close> is what \<open>JSON.parse(body)\<close> returns,
  \<open>None\<close> when it throws; for the token endpoint it is the object's two fields that the
  client reads, \<open>None\<close> also when the body is not an object.

  One operation of the client sees: the clock when the cached token is tested; whether
  building the token request throws (\<open>createJWT\<close> on a malformed key, \<open>new URL\<close> on the
  token URI); the answer of the token endpoint and the clock when it arrives; the answer
  of the Sheets API.
\<close>

datatype 'p http_reply = Reply int string "'p option" | NoReply string

record token_body =
  access_token :: "string option"
  expires_in :: "int option"

record world =
  now_check :: int
  prepare_error :: "string option"
  token_reply :: "token_body http_reply"
  now_reply :: int
  api_reply :: "js http_reply"

record client_state =
  accessToken :: "string option"
  tokenExpiry :: "int option"

text \<open>
  The requests an operation sends are recorded in order. A promise resolves, rejects
  with an error's message, or never settles: an exception inside a response callback
  (from \<open>JSON.parse\<close>) is outside every promise.
\<close>

datatype request = TokenExchange | Get string | Put string | Post string

datatype 'a settled = Resolved 'a | Rejected string | Unsettled

subsection \<open>getAccessToken\<close>

text \<open>
  \<^verbatim>\<open>
  if (this.accessToken && this.tokenExpiry && Date.now() < this.tokenExpiry - 300000) {
    return this.accessToken;
  }
  const jwt = this.createJWT();
  ...
  const url = new URL(this.serviceAccount.token_uri);
  return new Promise((resolve, reject) => {
    const req = https.request({...}, (res) => {
      ...
      res.on('end', () => {
        if (res.statusCode === 200) {
          const parsed = JSON.parse(data);
          this.accessToken = parsed.access_token;
          this.tokenExpiry = Date.now() + (parsed.expires_in * 1000);
          resolve(this.accessToken);
        } else {
          reject(new Error(`Token request failed: ${res.statusCode} ${data}`));
        }
      });
    });
    req.on('error', reject);
    ...
  });
  \<close>
  A missing \<open>expires_in\<close> makes the expiry NaN, which is falsy like null: \<open>None\<close>.
\<close>

definition cacheValid :: "world \<Rightarrow> client_state \<Rightarrow> bool" where
  "cacheValid w st =
     (truthy (accessToken st)
      \<and> (case tokenExpiry st of None \<Rightarrow> False
          | Some expiry \<Rightarrow> expiry \<noteq> 0 \<and> now_check w < expiry - 300000))"

definition getAccessToken ::
  "world \<Rightarrow> client_state \<Rightarrow> string option settled \<times> client_state \<times> request list" where
  "getAccessToken w st =
     (if cacheValid w st then (Resolved (accessToken st), st, [])
      else
        (case prepare_error w of
           Some m \<Rightarrow> (Rejected m, st, [])
         | None \<Rightarrow>
             (case token_reply w of
                Reply statusCode body parsed \<Rightarrow>
                  if statusCode = 200 then
                    (case parsed of
                       None \<Rightarrow> (Unsettled, st, [TokenExchange])
                     | Some p \<Rightarrow>
                         let st' = \<lparr>accessToken = access_token p,
                                    tokenExpiry =
                                      (case expires_in p of
                                         None \<Rightarrow> None
                                       | Some s \<Rightarrow> Some (now_reply w + s * 1000))\<rparr>
                         in (Resolved (accessToken st'), st', [TokenExchange]))
                  else (Rejected (''Token request failed: '' @ toString statusCode @ '' '' @ body),
                        st, [TokenExchange])
              | NoReply m \<Rightarrow> (Rejected m, st, [TokenExchange]))))"

subsection \<open>The authenticated requests\<close>

text \<open>
  \<open>get\<close> and \<open>put\<close> differ in the method only: the token first, then the request;
  status 200 resolves with the parsed body, another status rejects with
  \<open>`GET ${path} failed: ${res.statusCode} ${data}`\<close>, a request error rejects. The URL of
  the request is the configured \<open>apiUrl\<close> followed by the path, which \<open>new URL\<close> accepts
  whatever the path is; the body of a \<open>PUT\<close> or \<open>POST\<close> does not enter the result.
\<close>

definition request ::
  "string \<Rightarrow> (string \<Rightarrow> request) \<Rightarrow> world \<Rightarrow> client_state \<Rightarrow> string
   \<Rightarrow> js settled \<times> client_state \<times> request list" where
  "request method sent w st path =
     (case getAccessToken w st of
        (Rejected m, st', reqs) \<Rightarrow> (Rejected m, st', reqs)
      | (Unsettled, st', reqs) \<Rightarrow> (Unsettled, st', reqs)
      | (Resolved token, st', reqs) \<Rightarrow>
          (case api_reply w of
             Reply statusCode body parsed \<Rightarrow>
               if statusCode = 200 then
                 (case parsed of
                    None \<Rightarrow> (Unsettled, st', reqs @ [sent path])
                  | Some d \<Rightarrow> (Resolved d, st', reqs @ [sent path]))
               else (Rejected (method @ '' '' @ path @ '' failed: '' @ toString statusCode @ '' ''
                               @ body),
                     st', reqs @ [sent path])
           | NoReply m \<Rightarrow> (Rejected m, st', reqs @ [sent path])))"

definition get :: "world \<Rightarrow> client_state \<Rightarrow> string \<Rightarrow> js settled \<times> client_state \<times> request list" where
  "get = request ''GET'' Get"

definition put :: "world \<Rightarrow> client_state \<Rightarrow> string \<Rightarrow> js settled \<times> client_state \<times> request list" where
  "put = request ''PUT'' Put"

subsection \<open>The operations and their envelopes\<close>

text \<open>
  \<open>MCPResponse\<close> of types.ts: \<open>success\<close>, and the optional \<open>data\<close> and \<open>error\<close>, \<open>None\<close> for a key
  the object does not have. \<open>tryAwait\<close> is the frame of four operations:
  \<^verbatim>\<open>
  try { const data = await this.get(path); return { success: true, data }; }
  catch (error) { return { success: false, error: error.message }; }
  \<close>
\<close>

record envelope =
  success :: bool
  data :: "js option"
  error :: "string option"

definition tryAwait ::
  "js settled \<times> client_state \<times> request list \<Rightarrow> envelope settled \<times> client_state \<times> request list" where
  "tryAwait run =
     (case run of
        (Resolved d, st, reqs) \<Rightarrow> (Resolved \<lparr>success = True, data = Some d, error = None\<rparr>, st, reqs)
      | (Rejected m, st, reqs) \<Rightarrow> (Resolved \<lparr>success = False, data = None, error = Some m\<rparr>, st, reqs)
      | (Unsettled, st, reqs) \<Rightarrow> (Unsettled, st, reqs))"


text \<open>
  The paths are built with \<open>encodeURIComponent\<close> and \<open>URLSearchParams.toString\<close>; a character
  from 128 on is encoded by the two bytes of its UTF-8 form.
\<close>

definition hexDigit :: "nat \<Rightarrow> char" where
  "hexDigit n = ''0123456789ABCDEF'' ! (n mod 16)"

definition percentEncoded :: "char \<Rightarrow> string" where
  "percentEncoded c =
     (let n = (of_char c :: nat);
          bytes = (if n < 128 then [n] else [192 + n div 64, 128 + n mod 64])
      in concat (map (\<lambda>b. [CHR ''%'', hexDigit (b div 16), hexDigit b]) bytes))"

definition isAlphanumeric :: "char \<Rightarrow> bool" where
  "isAlphanumeric c =
     (let n = (of_char c :: nat)
      in (97 \<le> n \<and> n \<le> 122) \<or> (65 \<le> n \<and> n \<le> 90) \<or> (48 \<le> n \<and> n \<le> 57))"

definition encodeURIComponent :: "string \<Rightarrow> string" where
  "encodeURIComponent s =
     concat (map (\<lambda>c. if isAlphanumeric c \<or> c \<in> set ''-_.!~*'' \<or> c = CHR 0x27
                           \<or> c = CHR ''('' \<or> c = CHR '')''
                        then [c] else percentEncoded c) s)"

definition urlencoded :: "string \<Rightarrow> string" where
  "urlencoded s =
     concat (map (\<lambda>c. if c = CHR '' '' then ''+''
                        else if isAlphanumeric c \<or> c \<in> set ''*-._'' then [c]
                        else percentEncoded c) s)"

definition URLSearchParams_toString :: "(string \<times> string) list \<Rightarrow> string" where
  "URLSearchParams_toString params =
     join ''&'' (map (\<lambda>(name, v). urlencoded name @ ''='' @ urlencoded v) params)"

record options =
  valueRenderOption :: "string option"
  dateTimeRenderOption :: "string option"
  valueInputOption :: "string option"

definition renderParams :: "options \<Rightarrow> (string \<times> string) list" where
  "renderParams opts =
     (if truthy (valueRenderOption opts)
      then [(''valueRenderOption'', or_string (valueRenderOption opts) [])] else [])
     @ (if truthy (dateTimeRenderOption opts)
        then [(''dateTimeRenderOption'', or_string (dateTimeRenderOption opts) [])] else [])"

definition GoogleSheetsClient_getSpreadsheet ::
  "world \<Rightarrow> client_state \<Rightarrow> string \<Rightarrow> bool
   \<Rightarrow> envelope settled \<times> client_state \<times> request list" where
  "GoogleSheetsClient_getSpreadsheet w st spreadsheetId includeGridData =
     (let params = (if includeGridData then ''?includeGridData=true'' else [])
      in tryAwait (get w st (''/spreadsheets/'' @ spreadsheetId @ params)))"

definition GoogleSheetsClient_getValues ::
  "world \<Rightarrow> client_state \<Rightarrow> string \<Rightarrow> string \<Rightarrow> options
   \<Rightarrow> envelope settled \<times> client_state \<times> request list" where
  "GoogleSheetsClient_getValues w st spreadsheetId rng opts =
     (let queryString = URLSearchParams_toString (renderParams opts);
          path = ''/spreadsheets/'' @ spreadsheetId @ ''/values/'' @ encodeURIComponent rng
                 @ (if queryString \<noteq> [] then ''?'' @ queryString else [])
      in tryAwait (get w st path))"

definition GoogleSheetsClient_batchGetValues ::
  "world \<Rightarrow> client_state \<Rightarrow> string \<Rightarrow> string list \<Rightarrow> options
   \<Rightarrow> envelope settled \<times> client_state \<times> request list" where
  "GoogleSheetsClient_batchGetValues w st spreadsheetId rngs opts =
     (let params = map (\<lambda>rng. (''ranges'', rng)) rngs @ renderParams opts;
          path = ''/spreadsheets/'' @ spreadsheetId @ ''/values:batchGet?''
                 @ URLSearchParams_toString params
      in tryAwait (get w st path))"

definition GoogleSheetsClient_updateValues ::
  "world \<Rightarrow> client_state \<Rightarrow> string \<Rightarrow> string \<Rightarrow> js \<Rightarrow> options
   \<Rightarrow> envelope settled \<times> client_state \<times> request list" where
  "GoogleSheetsClient_updateValues w st spreadsheetId rng vals opts =
     (let valueInputOption' = or_string (valueInputOption opts) ''USER_ENTERED'';
          path = ''/spreadsheets/'' @ spreadsheetId @ ''/values/'' @ encodeURIComponent rng
                 @ ''?valueInputOption='' @ valueInputOption'
      in tryAwait (put w st path))"

definition GoogleSheetsClient_appendValues ::
  "world \<Rightarrow> client_state \<Rightarrow> string \<Rightarrow> string \<Rightarrow> js \<Rightarrow> options
   \<Rightarrow> envelope settled \<times> client_state \<times> request list" where
  "GoogleSheetsClient_appendValues w st spreadsheetId rng vals opts =
     (let valueInputOption' = or_string (valueInputOption opts) ''USER_ENTERED''
      in case getAccessToken w st of
           (Rejected m, st', reqs) \<Rightarrow>
             (Resolved \<lparr>success = False, data = None, error = Some m\<rparr>, st', reqs)
         | (Unsettled, st', reqs) \<Rightarrow> (Unsettled, st', reqs)
         | (Resolved token, st', reqs) \<Rightarrow>
             let path = ''/spreadsheets/'' @ spreadsheetId @ ''/values/'' @ encodeURIComponent rng
                        @ '':append?valueInputOption='' @ valueInputOption'
             in (case api_reply w of
                   Reply statusCode body parsed \<Rightarrow>
                     if statusCode = 200 then
                       (case parsed of
                          None \<Rightarrow> (Unsettled, st', reqs @ [Post path])
                        | Some d \<Rightarrow>
                            (Resolved \<lparr>success = True, data = Some d, error = None\<rparr>, st',
                             reqs @ [Post path]))
                     else (Resolved \<lparr>success = False, data = None,
                                  error = Some (''POST '' @ path @ '' failed: '' @ toString statusCode
                                                @ '' '' @ body)\<rparr>,
                           st', reqs @ [Post path])
                 | NoReply m \<Rightarrow>
                     (Resolved \<lparr>success = False, data = None, error = Some m\<rparr>, st',
                      reqs @ [Post path])))"

text \<open>
  \<^verbatim>\<open>
  const result = await this.getSpreadsheet(spreadsheetId, false);
  if (!result.success) { return result; }
  const sheets = result.data.sheets?.map(sheet => ({
    title: sheet.properties?.title,
    sheetId: sheet.properties?.sheetId,
    index: sheet.properties?.index,
    rowCount: sheet.properties?.gridProperties?.rowCount,
    columnCount: sheet.properties?.gridProperties?.columnCount
  })) || [];
  return { success: true, data: sheets };
  \<close>
  inside \<open>try\<close>, whose \<open>catch\<close> returns the failure envelope with the error's message.
\<close>

definition sheetSummary :: "js \<Rightarrow> error + js" where
  "sheetSummary sheet =
     (case readProperty sheet ''properties'' of
        Inl e \<Rightarrow> Inl e
      | Inr props \<Rightarrow>
          Inr (JObj [(''title'', readOptional props ''title''),
                     (''sheetId'', readOptional props ''sheetId''),
                     (''index'', readOptional props ''index''),
                     (''rowCount'', readOptional (readOptional props ''gridProperties'') ''rowCount''),
                     (''columnCount'',
                      readOptional (readOptional props ''gridProperties'') ''columnCount'')]))"

definition sheetSummaries :: "js \<Rightarrow> error + js" where
  "sheetSummaries d =
     (case readProperty d ''sheets'' of
        Inl e \<Rightarrow> Inl e
      | Inr JUndefined \<Rightarrow> Inr (JArr [])
      | Inr JNull \<Rightarrow> Inr (JArr [])
      | Inr (JArr shs) \<Rightarrow>
          (case mapThrowing sheetSummary shs of Inl e \<Rightarrow> Inl e | Inr ys \<Rightarrow> Inr (JArr ys))
      | Inr _ \<Rightarrow> Inl (TypeError ''result.data.sheets?.map is not a function''))"

definition GoogleSheetsClient_listSheets ::
  "world \<Rightarrow> client_state \<Rightarrow> string \<Rightarrow> envelope settled \<times> client_state \<times> request list" where
  "GoogleSheetsClient_listSheets w st spreadsheetId =
     (case GoogleSheetsClient_getSpreadsheet w st spreadsheetId False of
        (Unsettled, st', reqs) \<Rightarrow> (Unsettled, st', reqs)
      | (Rejected m, st', reqs) \<Rightarrow>
          (Resolved \<lparr>success = False, data = None, error = Some m\<rparr>, st', reqs)
      | (Resolved result, st', reqs) \<Rightarrow>
          if \<not> success result then (Resolved result, st', reqs)
          else
            (case sheetSummaries (case data result of None \<Rightarrow> JUndefined | Some d \<Rightarrow> d) of
               Inr shs \<Rightarrow> (Resolved \<lparr>success = True, data = Some shs, error = None\<rparr>, st', reqs)
             | Inl e \<Rightarrow>
                 (Resolved \<lparr>success = False, data = None, error = Some (message e)\<rparr>, st', reqs)))"


subsection \<open>The handlers (handlers/value-handlers.js, handlers/sheet-handlers.js)\<close>

text \<open>
  A handler checks its arguments and calls the client; \<open>args.range\<close>, \<open>args.ranges\<close>,
  \<open>args.values\<close> and \<open>args.gid\<close> are the fields \<open>range_arg\<close>, \<open>ranges_arg\<close>, \<open>values_arg\<close> and
  \<open>gid_arg\<close>. \<open>getSheetByGid\<close> ends with
  \<^verbatim>\<open>
  const sheetsResult = await client.listSheets(args.spreadsheet_id);
  if (!sheetsResult.success) { return sheetsResult; }
  const sheet = sheetsResult.data.find(s => s.sheetId === args.gid);
  if (!sheet) { return { success: false, error: `Sheet with gid ${args.gid} not found` }; }
  return { success: true, data: sheet };
  \<close>
  outside any \<open>try\<close>.
\<close>

fun findThrowing :: "('a \<Rightarrow> error + bool) \<Rightarrow> 'a list \<Rightarrow> error + 'a option" where
  "findThrowing p [] = Inr None"
| "findThrowing p (x # xs) =
     (case p x of
        Inl e \<Rightarrow> Inl e
      | Inr b \<Rightarrow> if b then Inr (Some x) else findThrowing p xs)"

record handler_args =
  spreadsheet_id :: "string option"
  range_arg :: "string option"
  ranges_arg :: "string list option"
  values_arg :: "js option"
  value_render_option :: "string option"
  date_time_render_option :: "string option"
  value_input_option :: "string option"
  include_grid_data :: "bool option"
  gid_arg :: "int option"

definition failure :: "string \<Rightarrow> envelope" where
  "failure m = \<lparr>success = False, data = None, error = Some m\<rparr>"

definition rangeRequired :: string where
  "rangeRequired =
     ''range is required (e.g., '' @ [CHR 0x22] @ ''Sheet1!A1:B10'' @ [CHR 0x22] @ '')''"

definition valueHandlers_getValues ::
  "world \<Rightarrow> client_state \<Rightarrow> handler_args \<Rightarrow> envelope settled \<times> client_state \<times> request list"
  where
  "valueHandlers_getValues w st a =
     (if \<not> truthy (spreadsheet_id a)
      then (Resolved (failure ''spreadsheet_id is required''), st, [])
      else if \<not> truthy (range_arg a)
      then (Resolved (failure rangeRequired), st, [])
      else GoogleSheetsClient_getValues w st (or_string (spreadsheet_id a) [])
             (or_string (range_arg a) [])
             \<lparr>valueRenderOption = value_render_option a,
              dateTimeRenderOption = date_time_render_option a,
              valueInputOption = None\<rparr>)"

definition valueHandlers_batchGetValues ::
  "world \<Rightarrow> client_state \<Rightarrow> handler_args \<Rightarrow> envelope settled \<times> client_state \<times> request list"
  where
  "valueHandlers_batchGetValues w st a =
     (if \<not> truthy (spreadsheet_id a)
      then (Resolved (failure ''spreadsheet_id is required''), st, [])
      else
        (case ranges_arg a of
           None \<Rightarrow>
             (Resolved (failure ''ranges is required and must be a non-empty array''), st, [])
         | Some rngs \<Rightarrow>
             if length rngs = 0
             then (Resolved (failure ''ranges is required and must be a non-empty array''), st, [])
             else GoogleSheetsClient_batchGetValues w st (or_string (spreadsheet_id a) []) rngs
                    \<lparr>valueRenderOption = value_render_option a,
                     dateTimeRenderOption = date_time_render_option a,
                     valueInputOption = None\<rparr>))"

definition valueHandlers_updateValues ::
  "world \<Rightarrow> client_state \<Rightarrow> handler_args \<Rightarrow> envelope settled \<times> client_state \<times> request list"
  where
  "valueHandlers_updateValues w st a =
     (if \<not> truthy (spreadsheet_id a)
      then (Resolved (failure ''spreadsheet_id is required''), st, [])
      else if \<not> truthy (range_arg a)
      then (Resolved (failure rangeRequired), st, [])
      else
        (case values_arg a of
           Some (JArr rows) \<Rightarrow>
             GoogleSheetsClient_updateValues w st (or_string (spreadsheet_id a) [])
               (or_string (range_arg a) []) (JArr rows)
               \<lparr>valueRenderOption = None, dateTimeRenderOption = None,
                valueInputOption = value_input_option a\<rparr>
         | _ \<Rightarrow> (Resolved (failure ''values is required and must be a 2D array''), st, [])))"

definition valueHandlers_appendValues ::
  "world \<Rightarrow> client_state \<Rightarrow> handler_args \<Rightarrow> envelope settled \<times> client_state \<times> request list"
  where
  "valueHandlers_appendValues w st a =
     (if \<not> truthy (spreadsheet_id a)
      then (Resolved (failure ''spreadsheet_id is required''), st, [])
      else if \<not> truthy (range_arg a)
      then (Resolved (failure (''range is required (e.g., '' @ [CHR 0x22] @ ''Sheet1''
                               @ [CHR 0x22] @ '' or '' @ [CHR 0x22] @ ''Sheet1!A1''
                               @ [CHR 0x22] @ '')'')), st, [])
      else
        (case values_arg a of
           Some (JArr rows) \<Rightarrow>
             GoogleSheetsClient_appendValues w st (or_string (spreadsheet_id a) [])
               (or_string (range_arg a) []) (JArr rows)
               \<lparr>valueRenderOption = None, dateTimeRenderOption = None,
                valueInputOption = value_input_option a\<rparr>
         | _ \<Rightarrow> (Resolved (failure ''values is required and must be a 2D array''), st, [])))"

definition sheetHandlers_getSpreadsheet ::
  "world \<Rightarrow> client_state \<Rightarrow> handler_args \<Rightarrow> envelope settled \<times> client_state \<times> request list"
  where
  "sheetHandlers_getSpreadsheet w st a =
     (if \<not> truthy (spreadsheet_id a)
      then (Resolved (failure ''spreadsheet_id is required''), st, [])
      else GoogleSheetsClient_getSpreadsheet w st (or_string (spreadsheet_id a) [])
             (case include_grid_data a of None \<Rightarrow> False | Some b \<Rightarrow> b))"

definition sheetHandlers_listSheets ::
  "world \<Rightarrow> client_state \<Rightarrow> handler_args \<Rightarrow> envelope settled \<times> client_state \<times> request list"
  where
  "sheetHandlers_listSheets w st a =
     (if \<not> truthy (spreadsheet_id a)
      then (Resolved (failure ''spreadsheet_id is required''), st, [])
      else GoogleSheetsClient_listSheets w st (or_string (spreadsheet_id a) []))"

definition sheetHandlers_getSheetByGid ::
  "world \<Rightarrow> client_state \<Rightarrow> handler_args \<Rightarrow> envelope settled \<times> client_state \<times> request list"
  where
  "sheetHandlers_getSheetByGid w st a =
     (if \<not> truthy (spreadsheet_id a)
      then (Resolved (failure ''spreadsheet_id is required''), st, [])
      else
        (case gid_arg a of
           None \<Rightarrow> (Resolved (failure ''gid is required''), st, [])
         | Some n \<Rightarrow>
             (case GoogleSheetsClient_listSheets w st (or_string (spreadsheet_id a) []) of
                (Unsettled, st', reqs) \<Rightarrow> (Unsettled, st', reqs)
              | (Rejected m, st', reqs) \<Rightarrow> (Rejected m, st', reqs)
              | (Resolved sheetsResult, st', reqs) \<Rightarrow>
                  if \<not> success sheetsResult then (Resolved sheetsResult, st', reqs)
                  else
                    (case data sheetsResult of
                       Some (JArr shs) \<Rightarrow>
                         (case findThrowing
                                 (\<lambda>s. case readProperty s ''sheetId'' of
                                        Inl e \<Rightarrow> Inl e
                                      | Inr v \<Rightarrow> Inr (v = JNum n)) shs of
                            Inl e \<Rightarrow> (Rejected (message e), st', reqs)
                          | Inr None \<Rightarrow>
                              (Resolved (failure (''Sheet with gid '' @ toString n
                                                  @ '' not found'')), st', reqs)
                          | Inr (Some sheet) \<Rightarrow>
                              (Resolved \<lparr>success = True, data = Some sheet, error = None\<rparr>,
                               st', reqs))
                     | _ \<Rightarrow> (Rejected ''sheetsResult.data.find is not a function'', st', reqs)))))"

text \<open>
  An envelope carries exactly one of \<open>data\<close> and \<open>error\<close>, \<open>data\<close> with \<open>success\<close> and \<open>error\<close>
  without. A reply is garbled when its status is 200 and its body is not JSON.
\<close>

definition exactlyOne :: "envelope \<Rightarrow> bool" where
  "exactlyOne env =
     (case (data env, error env) of
        (Some d, None) \<Rightarrow> success env
      | (None, Some m) \<Rightarrow> \<not> success env
      | _ \<Rightarrow> False)"

definition garbled :: "'p http_reply \<Rightarrow> bool" where
  "garbled r = (case r of Reply statusCode body parsed \<Rightarrow> statusCode = 200 \<and> parsed = None
                | NoReply m \<Rightarrow> False)"

text \<open>
  What the run of an operation or of a handler is held to: it resolves with an envelope
  that carries exactly one of \<open>data\<close> and \<open>error\<close>; it does not reject; it stays unsettled
  only on a garbled reply of the token endpoint or of the Sheets API.
\<close>

definition envelopeOrGarbled ::
  "world \<Rightarrow> envelope settled \<times> client_state \<times> request list \<Rightarrow> bool" where
  "envelopeOrGarbled w run =
     (case fst run of
        Resolved env \<Rightarrow> exactlyOne env
      | Rejected m \<Rightarrow> False
      | Unsettled \<Rightarrow> garbled (token_reply w) \<or> garbled (api_reply w))"

text \<open>The cached token is returned: it is truthy and the clock is before expiry - 300000.\<close>

definition cachedAndFresh :: "world \<Rightarrow> client_state \<Rightarrow> bool" where
  "cachedAndFresh w st =
     (truthy (accessToken st)
      \<and> (case tokenExpiry st of None \<Rightarrow> False | Some expiry \<Rightarrow> now_check w < expiry - 300000))"

section \<open>The Sheets client (client/sheets-client.js)\<close>

text \<open>
  The data the tools read, after types.ts, with the fields the tools below read: every
  field is optional. A cell of a value range is a string, a number, a boolean or null;
  numbers are integers here.
\<close>

datatype cell = Str string | Num int | Bool bool | Null

record sheet_properties =
  sheetId :: "int option"
  title :: "string option"
  index :: "int option"
  hidden :: "bool option"

record sheet =
  properties :: "sheet_properties option"

record spreadsheet =
  sheets :: "sheet list option"

record value_range =
  range :: "string option"
  "values" :: "cell list list option"

text \<open>
  The client wraps the googleapis library, which is outside the repository: its two
  requests the tools below use are the fields of \<open>sheets_api\<close>, each answering with the
  response's \<open>data\<close> or throwing. Every request a client method sends is recorded, so
  that a handler that returns with no record has not called the client.
\<close>

record sheets_api =
  spreadsheets_get :: "string \<Rightarrow> bool \<Rightarrow> error + spreadsheet"
  values_get :: "string \<Rightarrow> string \<Rightarrow> error + value_range"

datatype api_call = SpreadsheetsGet string bool | ValuesGet string string

definition getSpreadsheet ::
  "sheets_api \<Rightarrow> string \<Rightarrow> bool \<Rightarrow> api_call list \<times> (error + spreadsheet)" where
  "getSpreadsheet api spreadsheetId includeGridData =
     ([SpreadsheetsGet spreadsheetId includeGridData],
      spreadsheets_get api spreadsheetId includeGridData)"

definition getValues ::
  "sheets_api \<Rightarrow> string \<Rightarrow> string \<Rightarrow> api_call list \<times> (error + value_range)" where
  "getValues api spreadsheetId rng =
     ([ValuesGet spreadsheetId rng], values_get api spreadsheetId rng)"

text \<open>
  \<^verbatim>\<open>
  async getSheetByGid(spreadsheetId, gid) {
    const spreadsheet = await this.getSpreadsheet(spreadsheetId, false);
    const sheet = spreadsheet.sheets?.find(
      (s) => s.properties?.sheetId?.toString() === gid.toString()
    );
    if (!sheet) { return null; }
    return sheet;
  }
  \<close>
  \<open>sheetIdString\<close> is the left side of the comparison, undefined when the sheet has no
  properties or no sheetId; the gid is a string, its own \<open>toString\<close>.
\<close>

definition sheetIdString :: "sheet \<Rightarrow> string option" where
  "sheetIdString s =
     (case properties s of
        None \<Rightarrow> None
      | Some props \<Rightarrow> (case sheetId props of None \<Rightarrow> None | Some n \<Rightarrow> Some (toString n)))"

definition getSheetByGid ::
  "sheets_api \<Rightarrow> string \<Rightarrow> string \<Rightarrow> api_call list \<times> (error + sheet option)" where
  "getSheetByGid api spreadsheetId gid =
     (case getSpreadsheet api spreadsheetId False of
        (calls, Inl e) \<Rightarrow> (calls, Inl e)
      | (calls, Inr spreadsheet) \<Rightarrow>
          (calls,
           Inr (case sheets spreadsheet of
                  None \<Rightarrow> None
                | Some shs \<Rightarrow> find (\<lambda>s. sheetIdString s = Some gid) shs)))"


section \<open>The tool handlers (tools/search.tools.js, tools/sheet.tools.js)\<close>

text \<open>
  The arguments of a tool call, one record for the fields the three handlers below read.
  A handler returns the record of the client's requests and either a thrown error or
  its result. The text of a result is kept as a \<open>reply\<close>: which message it is, with the
  values the message interpolates.
\<close>

record args =
  spreadsheetId :: "string option"
  url :: "string option"
  gid :: "string option"
  sheetName :: string
  searchText :: string
  matchType :: "string option"
  maxResults :: "int option"
  numRows :: "int option"

datatype reply =
    NoDataFound string
  | NoMatchesFound string string string
  | FoundMatches int string string string "int option" string
  | MissingSpreadsheetId
  | NoGidProvided
  | SheetNotFound string
  | SheetFound sheet
  | SheetPreviewEmpty string
  | SheetPreview string int int
  | ErrorExecuting string string

record mcp_result =
  content :: reply
  isError :: bool

subsection \<open>search-values\<close>

record match =
  cellRef :: string
  "value" :: string
  row :: int
  col :: string

text \<open>\<open>String(cell || '')\<close>: a falsy cell (\<open>''\<close>, 0, false, null) reads as the empty string.\<close>

definition cellText :: "cell \<Rightarrow> string" where
  "cellText c =
     (case c of
        Str s \<Rightarrow> s
      | Num n \<Rightarrow> if n = 0 then [] else toString n
      | Bool b \<Rightarrow> if b then ''true'' else []
      | Null \<Rightarrow> [])"

definition isMatch :: "string \<Rightarrow> string \<Rightarrow> string \<Rightarrow> bool" where
  "isMatch matchTy searchLower cellLower =
     (if matchTy = ''exact'' then cellLower = searchLower
      else includes_js cellLower searchLower)"

text \<open>
  The scan, with the array \<open>matches\<close> as the state of both loops:
  \<^verbatim>\<open>
  result.values.forEach((row, rowIdx) => {
    row.forEach((cell, colIdx) => {
      const cellValue = String(cell || '');
      const cellLower = cellValue.toLowerCase();
      let isMatch = false;
      if (matchType === 'exact') { isMatch = cellLower === searchLower; }
      else { isMatch = cellLower.includes(searchLower); }
      if (isMatch) {
        const colLetter = columnIndexToLetter(colIdx);
        const cellRef = `${colLetter}${rowIdx + 1}`;
        matches.push({ cellRef, value: cellValue, row: rowIdx + 1, col: colLetter });
      }
    });
    // Stop if we hit max results
    if (matches.length >= maxResults) { return; }
  });
  \<close>
  The \<open>return\<close> is the last statement of the row's callback: it ends that call, after the
  row is scanned, and \<open>forEach\<close> goes on with the next row.
\<close>

definition cellCallback ::
  "string \<Rightarrow> string \<Rightarrow> nat \<Rightarrow> cell \<Rightarrow> nat \<Rightarrow> match list \<Rightarrow> match list" where
  "cellCallback matchTy searchLower rowIdx c colIdx matches =
     (let cellValue = cellText c;
          cellLower = toLowerCase cellValue
      in if isMatch matchTy searchLower cellLower
         then
           (let colLetter = columnIndexToLetter (int colIdx)
            in matches @ [\<lparr>cellRef = colLetter @ toString (int rowIdx + 1), value = cellValue,
                            row = int rowIdx + 1, col = colLetter\<rparr>])
         else matches)"

definition rowCallback ::
  "string \<Rightarrow> int \<Rightarrow> string \<Rightarrow> cell list \<Rightarrow> nat \<Rightarrow> match list \<Rightarrow> match list" where
  "rowCallback matchTy maxRes searchLower r rowIdx matches =
     (let matches = forEach (cellCallback matchTy searchLower rowIdx) r 0 matches
      in if int (length matches) \<ge> maxRes then matches else matches)"

definition searchMatches :: "string \<Rightarrow> int \<Rightarrow> string \<Rightarrow> cell list list \<Rightarrow> match list" where
  "searchMatches matchTy maxRes searchTxt vals =
     forEach (rowCallback matchTy maxRes (toLowerCase searchTxt)) vals 0 []"

text \<open>A line of the result's list: two spaces, the cell reference, and the value in quotes.\<close>

definition matchLine :: "match \<Rightarrow> string" where
  "matchLine m = ''  '' @ cellRef m @ '': '' @ [CHR 0x22] @ value m @ [CHR 0x22]"

text \<open>
  The handler. \<open>FoundMatches n text type sheet first list\<close> is the message
  ``Found \<open>n\<close> matches'', with the search text, the match type and the sheet, the note
  ``(showing first \<open>k\<close>)'' when \<open>first = Some k\<close>, and the list of lines.
\<close>

definition search_values ::
  "(string \<Rightarrow> bool) \<Rightarrow> sheets_api \<Rightarrow> args \<Rightarrow> api_call list \<times> (error + mcp_result)" where
  "search_values accepted api a =
     (case parseSpreadsheetInput accepted (spreadsheetId a) of
        Inl e \<Rightarrow> ([], Inl e)
      | Inr (spreadsheetId', _) \<Rightarrow>
          let matchTy = or_string (matchType a) ''contains'';
              maxRes = or_default (maxResults a) 50;
              rng = sheetName a @ ''!A1:ZZ10000''
          in (case getValues api spreadsheetId' rng of
                (calls, Inl e) \<Rightarrow> (calls, Inl e)
              | (calls, Inr result) \<Rightarrow>
                  (case values result of
                     None \<Rightarrow> (calls, Inr \<lparr>content = NoDataFound (sheetName a), isError = False\<rparr>)
                   | Some vals \<Rightarrow>
                       if length vals = 0
                       then (calls, Inr \<lparr>content = NoDataFound (sheetName a), isError = False\<rparr>)
                       else
                         let matches = searchMatches matchTy maxRes (searchText a) vals
                         in if length matches = 0
                            then (calls,
                                  Inr \<lparr>content = NoMatchesFound (searchText a) matchTy (sheetName a),
                                       isError = False\<rparr>)
                            else
                              let matchList = join ''\<newline>'' (map matchLine (slice0 maxRes matches))
                              in (calls,
                                  Inr \<lparr>content =
                                         FoundMatches (int (length matches)) (searchText a) matchTy
                                           (sheetName a)
                                           (if int (length matches) > maxRes then Some maxRes
                                            else None)
                                           matchList,
                                       isError = False\<rparr>))))"

text \<open>
  The specification's side, for comparison with the scan: the cells of a grid in
  row-major order with their indices, the test of one cell, and the match a cell gives.
\<close>

definition cellsRowMajor :: "cell list list \<Rightarrow> (nat \<times> nat \<times> cell) list" where
  "cellsRowMajor vals =
     concat (map (\<lambda>(rowIdx, r). map (\<lambda>(colIdx, c). (rowIdx, colIdx, c)) (enumerate 0 r))
                 (enumerate 0 vals))"

definition cellMatches :: "string \<Rightarrow> string \<Rightarrow> nat \<times> nat \<times> cell \<Rightarrow> bool" where
  "cellMatches matchTy searchTxt = (\<lambda>(rowIdx, colIdx, c).
     if matchTy = ''exact'' then toLowerCase (cellText c) = toLowerCase searchTxt
     else (\<exists>pre post. toLowerCase (cellText c) = pre @ toLowerCase searchTxt @ post))"

definition matchAt :: "nat \<times> nat \<times> cell \<Rightarrow> match" where
  "matchAt = (\<lambda>(rowIdx, colIdx, c).
     \<lparr>cellRef = columnIndexToLetter (int colIdx) @ toString (int rowIdx + 1),
      value = cellText c, row = int rowIdx + 1, col = columnIndexToLetter (int colIdx)\<rparr>)"

definition allMatches :: "string \<Rightarrow> string \<Rightarrow> cell list list \<Rightarrow> match list" where
  "allMatches matchTy searchTxt vals =
     map matchAt (filter (cellMatches matchTy searchTxt) (cellsRowMajor vals))"

subsection \<open>get-sheet-by-gid\<close>

text \<open>
  \<^verbatim>\<open>
  const inputId = args.spreadsheetId || args.url;
  if (!inputId) { return { content: [... Missing spreadsheet ID ...], isError: true }; }
  const parsed = parseSpreadsheetInput(inputId);
  spreadsheetId = parsed.spreadsheetId;
  gid = parsed.gid;
  if (!gid && args.gid) { gid = args.gid; }
  if (!gid) { return { content: [... No gid provided ...], isError: true }; }
  const sheet = await sheetsClient.getSheetByGid(spreadsheetId, gid);
  if (!sheet) { return { content: [... Sheet not found ...], isError: true }; }
  return { content: [... Sheet Found ...] };
  \<close>
\<close>

definition get_sheet_by_gid ::
  "(string \<Rightarrow> bool) \<Rightarrow> sheets_api \<Rightarrow> args \<Rightarrow> api_call list \<times> (error + mcp_result)" where
  "get_sheet_by_gid accepted api a =
     (let inputId = or_else (spreadsheetId a) (url a)
      in if \<not> truthy inputId
         then ([], Inr \<lparr>content = MissingSpreadsheetId, isError = True\<rparr>)
         else
           (case parseSpreadsheetInput accepted inputId of
              Inl e \<Rightarrow> ([], Inl e)
            | Inr (spreadsheetId', parsedGid) \<Rightarrow>
                let gid' = (if \<not> truthy parsedGid \<and> truthy (gid a) then gid a else parsedGid)
                in (case gid' of
                      None \<Rightarrow> ([], Inr \<lparr>content = NoGidProvided, isError = True\<rparr>)
                    | Some g \<Rightarrow>
                        if g = [] then ([], Inr \<lparr>content = NoGidProvided, isError = True\<rparr>)
                        else
                          (case getSheetByGid api spreadsheetId' g of
                             (calls, Inl e) \<Rightarrow> (calls, Inl e)
                           | (calls, Inr None) \<Rightarrow>
                               (calls, Inr \<lparr>content = SheetNotFound g, isError = True\<rparr>)
                           | (calls, Inr (Some sh)) \<Rightarrow>
                               (calls, Inr \<lparr>content = SheetFound sh, isError = False\<rparr>)))))"

subsection \<open>get-sheet-preview\<close>

text \<open>
  \<^verbatim>\<open>
  const numRows = Math.min(args.numRows || 10, 50); // Cap at 50 rows
  const range = `${args.sheetName}!A1:ZZ${numRows}`;
  const result = await sheetsClient.getValues(spreadsheetId, range);
  \<close>
  \<open>SheetPreview sheet rows n\<close> is the message with the sheet's name, the number of rows
  that came back and ``showing first \<open>n\<close> rows''; the number of columns and the listing
  of the cells are left out.
\<close>

definition previewRows :: "args \<Rightarrow> int" where
  "previewRows a = min (or_default (numRows a) 10) 50"

definition get_sheet_preview ::
  "(string \<Rightarrow> bool) \<Rightarrow> sheets_api \<Rightarrow> args \<Rightarrow> api_call list \<times> (error + mcp_result)" where
  "get_sheet_preview accepted api a =
     (case parseSpreadsheetInput accepted (spreadsheetId a) of
        Inl e \<Rightarrow> ([], Inl e)
      | Inr (spreadsheetId', _) \<Rightarrow>
          let numRows' = previewRows a;
              rng = sheetName a @ ''!A1:ZZ'' @ toString numRows'
          in (case getValues api spreadsheetId' rng of
                (calls, Inl e) \<Rightarrow> (calls, Inl e)
              | (calls, Inr result) \<Rightarrow>
                  (case values result of
                     None \<Rightarrow>
                       (calls, Inr \<lparr>content = SheetPreviewEmpty (sheetName a), isError = False\<rparr>)
                   | Some vals \<Rightarrow>
                       if length vals = 0
                       then (calls,
                             Inr \<lparr>content = SheetPreviewEmpty (sheetName a), isError = False\<rparr>)
                       else (calls,
                             Inr \<lparr>content = SheetPreview (sheetName a) (int (length vals)) numRows',
                                  isError = False\<rparr>))))"


subsection \<open>The callback the server registers for a tool (src/index.js)\<close>

text \<open>
  \<^verbatim>\<open>
  try {
    const result = await handleToolCall(tool.name, args, sheetsClient);
    return result;
  } catch (error) {
    let errorMessage = error.message;
    if (error.response?.data?.error) {
      const apiError = error.response.data.error;
      errorMessage = `${apiError.message} (${apiError.status})`;
    }
    return { content: [... Error executing ${tool.name} ... ${errorMessage} ...], isError: true };
  }
  \<close>
  The registry (tools/index.js) passes on the result, or the error, of the module that
  handles the name; \<open>run\<close> is that handler's run.
\<close>

definition toolCallback ::
  "string \<Rightarrow> api_call list \<times> (error + mcp_result) \<Rightarrow> api_call list \<times> mcp_result" where
  "toolCallback toolName run =
     (case run of
        (calls, Inr result) \<Rightarrow> (calls, result)
      | (calls, Inl e) \<Rightarrow>
          let errorMessage =
                (case e of
                   Error m \<Rightarrow> m
                 | TypeError m \<Rightarrow> m
                 | ApiError m am st \<Rightarrow> am @ '' ('' @ st @ '')'')
          in (calls, \<lparr>content = ErrorExecuting toolName errorMessage, isError = True\<rparr>))"

subsection \<open>Worked examples\<close>

text \<open>
  For the worked examples: a Sheets API that answers every values request with the grid
  \<open>vals\<close> and every metadata request with the sheets \<open>shs\<close>.
\<close>

definition gridApi :: "sheet list \<Rightarrow> cell list list \<Rightarrow> sheets_api" where
  "gridApi shs vals =
     \<lparr>spreadsheets_get = (\<lambda>spreadsheetId includeGridData. Inr \<lparr>sheets = Some shs\<rparr>),
      values_get = (\<lambda>spreadsheetId rng. Inr \<lparr>range = Some rng, values = Some vals\<rparr>)\<rparr>"

text \<open>A sheet with the id \<open>n\<close> and the title \<open>t\<close>.\<close>

definition sheetNumbered :: "int \<Rightarrow> string \<Rightarrow> sheet" where
  "sheetNumbered n t =
     \<lparr>properties = Some \<lparr>sheetId = Some n, title = Some t, index = None, hidden = None\<rparr>\<rparr>"

definition sheetsOf :: "spreadsheet \<Rightarrow> sheet list" where
  "sheetsOf ss = (case sheets ss of None \<Rightarrow> [] | Some shs \<Rightarrow> shs)"


section \<open>Column letters: the conversion inverts the parse\<close>

lemma columnIndexToLetter_loop_parse:
  "- 1 \<le> idx \<Longrightarrow>
   foldl letterValue 0 (columnIndexToLetter_loop idx letter)
     = foldl letterValue (idx + 1) letter"
proof (induction idx letter rule: columnIndexToLetter_loop.induct)
  case (1 idx letter)
  show ?case
  proof (cases "idx \<ge> 0")
    case True
    have c: "of_char (char_of (idx mod 26 + 65) :: char) = idx mod 26 + 65"
      by simp
    have "foldl letterValue 0 (columnIndexToLetter_loop idx letter)
          = foldl letterValue 0
              (columnIndexToLetter_loop (idx div 26 - 1) (char_of (idx mod 26 + 65) # letter))"
      using True by simp
    also have "\<dots> = foldl letterValue (idx div 26 - 1 + 1) (char_of (idx mod 26 + 65) # letter)"
      using True by (intro "1.IH") auto
    also have "\<dots> = foldl letterValue (idx + 1) letter"
      using c by (simp add: letterValue_def)
    finally show ?thesis .
  next
    case False
    with "1.prems" have "idx = - 1" by simp
    then show ?thesis by simp
  qed
qed

lemma columnIndexToLetter_loop_unparse:
  "0 \<le> a \<Longrightarrow> \<forall>c\<in>set s. isUpper c \<Longrightarrow>
   columnIndexToLetter_loop (foldl letterValue a s - 1) acc
     = columnIndexToLetter_loop (a - 1) (s @ acc)
   \<and> 0 \<le> foldl letterValue a s"
proof (induction s arbitrary: acc rule: rev_induct)
  case Nil
  then show ?case by simp
next
  case (snoc c s)
  let ?v = "foldl letterValue a s"
  have ih: "columnIndexToLetter_loop (?v - 1) (c # acc)
            = columnIndexToLetter_loop (a - 1) (s @ c # acc)"
    and nn: "0 \<le> ?v"
    using snoc.IH[of "c # acc"] snoc.prems by auto
  define d :: int where "d = of_char c - 65"
  have d: "0 \<le> d" "d < 26" "of_char c = d + 65"
    using snoc.prems by (simp_all add: isUpper_def d_def)
  have v: "foldl letterValue a (s @ [c]) - 1 = ?v * 26 + d"
    by (simp add: letterValue_def d)
  have dm: "(?v * 26 + d) div 26 = ?v" "(?v * 26 + d) mod 26 = d"
    using d by simp_all
  have ch: "char_of (d + 65) = c"
    using d(3) by (metis char_of_char)
  have "columnIndexToLetter_loop (?v * 26 + d) acc = columnIndexToLetter_loop (?v - 1) (c # acc)"
    using nn d dm ch by (subst columnIndexToLetter_loop.simps) simp
  with ih v nn d show ?case by simp
qed

lemma foldl_letterValue_pos:
  "1 \<le> a \<Longrightarrow> \<forall>c\<in>set s. isUpper c \<Longrightarrow> 1 \<le> foldl letterValue a s"
proof (induction s arbitrary: a)
  case Nil
  then show ?case by simp
next
  case (Cons c s)
  have "1 \<le> letterValue a c"
    using Cons.prems by (simp add: letterValue_def isUpper_def)
  then show ?case using Cons.IH[of "letterValue a c"] Cons.prems by simp
qed

lemma columnIndexToLetter_nonempty:
  "0 \<le> idx \<Longrightarrow> columnIndexToLetter_loop idx letter \<noteq> []"
proof (induction idx letter rule: columnIndexToLetter_loop.induct)
  case (1 idx letter)
  show ?case
  proof (cases "0 \<le> idx div 26 - 1")
    case True
    then show ?thesis using "1.prems" "1.IH" by simp
  next
    case False
    then show ?thesis using "1.prems"
      by (subst columnIndexToLetter_loop.simps, subst columnIndexToLetter_loop.simps) simp
  qed
qed

lemma columnIndexToLetter_upper:
  "list_all isUpper letter \<Longrightarrow> list_all isUpper (columnIndexToLetter_loop idx letter)"
proof (induction idx letter rule: columnIndexToLetter_loop.induct)
  case (1 idx letter)
  show ?case
  proof (cases "0 \<le> idx")
    case True
    have "isUpper (char_of (idx mod 26 + 65))"
      by (simp add: isUpper_def)
    then show ?thesis using True "1.IH" "1.prems" by simp
  next
    case False
    then show ?thesis using "1.prems" by simp
  qed
qed

text \<open>
  Claim C2. \<open>columnIndexToLetter\<close> is a total function (its loop terminates on every
  input, by the measure \<open>index + 1\<close>); it maps 0, 25, 26, 701 and 702 to \<open>A\<close>, \<open>Z\<close>, \<open>AA\<close>,
  \<open>ZZ\<close> and \<open>AAA\<close>; for every index from 0 on its result is a non-empty word of capital
  letters that the column-letter parse reads back as that index; and every non-empty
  word of capital letters is the result for the index it parses to. So the conversion is
  the inverse of the parse, a bijection between the natural numbers and the column names.
\<close>

theorem columnIndexToLetter_inverse_of_parse:
  "columnIndexToLetter 0 = ''A'' \<and> columnIndexToLetter 25 = ''Z''
   \<and> columnIndexToLetter 26 = ''AA'' \<and> columnIndexToLetter 701 = ''ZZ''
   \<and> columnIndexToLetter 702 = ''AAA''
   \<and> (0 \<le> n \<longrightarrow> isColumnLetters (columnIndexToLetter n)
                \<and> columnLetterParse (columnIndexToLetter n) = n)
   \<and> (isColumnLetters s \<longrightarrow> 0 \<le> columnLetterParse s
                \<and> columnIndexToLetter (columnLetterParse s) = s)"
proof -
  have v: "columnIndexToLetter 0 = ''A''" "columnIndexToLetter 25 = ''Z''"
    "columnIndexToLetter 26 = ''AA''" "columnIndexToLetter 701 = ''ZZ''"
    "columnIndexToLetter 702 = ''AAA''"
    by (simp_all add: columnIndexToLetter_def char_of_def)
  have f: "isColumnLetters (columnIndexToLetter n) \<and> columnLetterParse (columnIndexToLetter n) = n"
    if "0 \<le> n"
    using that columnIndexToLetter_loop_parse[of n "[]"] columnIndexToLetter_nonempty[of n "[]"]
      columnIndexToLetter_upper[of "[]" n]
    by (simp add: columnIndexToLetter_def columnLetterParse_def isColumnLetters_def)
  have g: "0 \<le> columnLetterParse s \<and> columnIndexToLetter (columnLetterParse s) = s"
    if "isColumnLetters s"
  proof -
    from that obtain c t where s: "s = c # t" and u: "isUpper c" "\<forall>x\<in>set t. isUpper x"
      by (cases s) (auto simp: isColumnLetters_def list_all_iff)
    have a: "0 \<le> letterValue 0 c - 1" using u(1) by (simp add: letterValue_def isUpper_def)
    have "0 \<le> letterValue 0 c" using a by simp
    from columnIndexToLetter_loop_unparse[OF this u(2), of "[]"]
    have 1: "columnIndexToLetter_loop (foldl letterValue (letterValue 0 c) t - 1) []
             = columnIndexToLetter_loop (letterValue 0 c - 1) t"
      and 2: "0 \<le> foldl letterValue (letterValue 0 c) t" by simp_all
    have "\<forall>x\<in>set [c]. isUpper x" using u(1) by simp
    from columnIndexToLetter_loop_unparse[of 0 "[c]" t, OF _ this]
    have 3: "columnIndexToLetter_loop (letterValue 0 c - 1) t = c # t" by simp
    have 4: "1 \<le> foldl letterValue (letterValue 0 c) t"
      using a u(2) by (intro foldl_letterValue_pos) simp_all
    show ?thesis using 1 3 4 a
      by (simp add: s columnIndexToLetter_def columnLetterParse_def)
  qed
  show ?thesis using v f g by blast
qed

theorem columnIndexToLetter_inverse_of_parse_witness:
  "(0::int) \<le> 27 \<and> isColumnLetters ''AB'' \<and> columnIndexToLetter 27 = ''AB''
   \<and> columnLetterParse ''AB'' = 27"
  using columnIndexToLetter_inverse_of_parse [of 27 "''AB''"]
  by (simp add: isColumnLetters_def isUpper_def columnLetterParse_def letterValue_def)


section \<open>search-values: the scan and the result cap\<close>

lemma startsWith_iff: "startsWith s t \<longleftrightarrow> (\<exists>post. s = t @ post)"
  by (induction s t rule: startsWith.induct) auto

lemma includes_js_iff: "includes_js s t \<longleftrightarrow> (\<exists>pre post. s = pre @ t @ post)"
proof (induction s)
  case Nil
  then show ?case by auto
next
  case (Cons c s)
  show ?case
  proof
    assume "includes_js (c # s) t"
    then consider "startsWith (c # s) t" | "includes_js s t" by auto
    then show "\<exists>pre post. c # s = pre @ t @ post"
    proof cases
      case 1
      then obtain post where "c # s = t @ post" by (auto simp: startsWith_iff)
      then have "c # s = [] @ t @ post" by simp
      then show ?thesis by blast
    next
      case 2
      then obtain pre post where "s = pre @ t @ post" using Cons.IH by auto
      then have "c # s = (c # pre) @ t @ post" by simp
      then show ?thesis by blast
    qed
  next
    assume "\<exists>pre post. c # s = pre @ t @ post"
    then obtain pre post where e: "c # s = pre @ t @ post" by blast
    show "includes_js (c # s) t"
    proof (cases pre)
      case Nil
      then have "startsWith (c # s) t" using e by (auto simp: startsWith_iff)
      then show ?thesis by simp
    next
      case (Cons p pre')
      then have "s = pre' @ t @ post" using e by simp
      then have "includes_js s t" using Cons.IH by blast
      then show ?thesis by simp
    qed
  qed
qed

lemma isMatch_cellMatches:
  "isMatch matchTy (toLowerCase searchTxt) (toLowerCase (cellText c))
   = cellMatches matchTy searchTxt (rowIdx, colIdx, c)"
  by (simp add: isMatch_def cellMatches_def includes_js_iff)

lemma cellCallback_step:
  "cellCallback matchTy (toLowerCase searchTxt) rowIdx c colIdx ms
   = ms @ map matchAt (filter (cellMatches matchTy searchTxt) [(rowIdx, colIdx, c)])"
  using isMatch_cellMatches[of matchTy searchTxt c rowIdx colIdx]
  by (simp add: cellCallback_def Let_def matchAt_def)

lemma rowCallback_step:
  "rowCallback matchTy maxRes searchLower r rowIdx ms
   = forEach (cellCallback matchTy searchLower rowIdx) r 0 ms"
  by (simp add: rowCallback_def Let_def)

lemma forEach_cellCallback:
  "forEach (cellCallback matchTy (toLowerCase searchTxt) rowIdx) r j ms
   = ms @ map matchAt (filter (cellMatches matchTy searchTxt)
                         (map (\<lambda>(colIdx, c). (rowIdx, colIdx, c)) (enumerate j r)))"
proof (induction r arbitrary: j ms)
  case Nil
  then show ?case by simp
next
  case (Cons c r)
  let ?f = "cellCallback matchTy (toLowerCase searchTxt) rowIdx"
  have "forEach ?f (c # r) j ms = forEach ?f r (Suc j) (?f c j ms)"
    by simp
  also have "\<dots> = ?f c j ms @ map matchAt (filter (cellMatches matchTy searchTxt)
                         (map (\<lambda>(colIdx, c). (rowIdx, colIdx, c)) (enumerate (Suc j) r)))"
    by (rule Cons.IH)
  also have "?f c j ms
             = ms @ map matchAt (filter (cellMatches matchTy searchTxt) [(rowIdx, j, c)])"
    by (rule cellCallback_step)
  finally show ?case by simp
qed

lemma forEach_rowCallback:
  "forEach (rowCallback matchTy maxRes (toLowerCase searchTxt)) vals i ms
   = ms @ map matchAt (filter (cellMatches matchTy searchTxt)
        (concat (map (\<lambda>(rowIdx, r). map (\<lambda>(colIdx, c). (rowIdx, colIdx, c)) (enumerate 0 r))
                 (enumerate i vals))))"
proof (induction vals arbitrary: i ms)
  case Nil
  then show ?case by simp
next
  case (Cons r vals)
  let ?g = "rowCallback matchTy maxRes (toLowerCase searchTxt)"
  have "forEach ?g (r # vals) i ms = forEach ?g vals (Suc i) (?g r i ms)"
    by simp
  also have "\<dots> = ?g r i ms @ map matchAt (filter (cellMatches matchTy searchTxt)
        (concat (map (\<lambda>(rowIdx, r). map (\<lambda>(colIdx, c). (rowIdx, colIdx, c)) (enumerate 0 r))
                 (enumerate (Suc i) vals))))"
    by (rule Cons.IH)
  also have "?g r i ms = ms @ map matchAt (filter (cellMatches matchTy searchTxt)
                         (map (\<lambda>(colIdx, c). (i, colIdx, c)) (enumerate 0 r)))"
    by (simp only: rowCallback_step forEach_cellCallback)
  finally show ?case by simp
qed

lemma searchMatches_allMatches:
  "searchMatches matchTy maxRes searchTxt vals = allMatches matchTy searchTxt vals"
  by (simp add: searchMatches_def allMatches_def cellsRowMajor_def forEach_rowCallback)


text \<open>
  Claim C1. For every grid that is not empty, every search text and match type and
  every positive \<open>maxResults\<close>, the scan of search-values returns the matches of all cells
  of all rows of the grid, in row-major order: the check against \<open>maxResults\<close> after a row
  ends nothing but that row's callback, whose row is already scanned, and the next rows
  are visited all the same. The handler reports the number of all matches in the grid
  and lists the first \<open>maxResults\<close> of them.
\<close>

theorem search_values_soft_cap:
  assumes "parseSpreadsheetInput accepted (spreadsheetId a) = Inr (sid, g)"
    and "values_get api sid (sheetName a @ ''!A1:ZZ10000'') = Inr result"
    and "values result = Some vals" and "vals \<noteq> []"
    and "maxResults a = Some n" and "0 < n"
  shows "searchMatches (or_string (matchType a) ''contains'') n (searchText a) vals
           = allMatches (or_string (matchType a) ''contains'') (searchText a) vals
         \<and> search_values accepted api a =
           ([ValuesGet sid (sheetName a @ ''!A1:ZZ10000'')],
            Inr \<lparr>content =
                   (let matchTy = or_string (matchType a) ''contains'';
                        found = allMatches matchTy (searchText a) vals
                    in if found = [] then NoMatchesFound (searchText a) matchTy (sheetName a)
                       else FoundMatches (int (length found)) (searchText a) matchTy (sheetName a)
                              (if n < int (length found) then Some n else None)
                              (join ''\<newline>'' (map matchLine (take (nat n) found)))),
                 isError = False\<rparr>)"
proof -
  have n: "or_default (maxResults a) 50 = n"
    using assms(5,6) by (simp add: or_default_def)
  have s: "slice0 n xs = take (nat n) xs" for xs :: "match list"
    using assms(6) by (simp add: slice0_def)
  show ?thesis
    using assms(1-4)
    by (simp add: search_values_def getValues_def n s searchMatches_allMatches Let_def)
qed

theorem search_values_soft_cap_witness:
  "search_values (\<lambda>u. True) (gridApi [] [[Str ''a'', Str ''b''], [Str ''A'', Str ''xa'']])
     \<lparr>spreadsheetId = Some ''id1'', url = None, gid = None, sheetName = ''S'',
      searchText = ''a'', matchType = None, maxResults = Some 1, numRows = None\<rparr>
   = ([ValuesGet ''id1'' ''S!A1:ZZ10000''],
      Inr \<lparr>content = FoundMatches 3 ''a'' ''contains'' ''S'' (Some 1) (''  A1: '' @ [CHR 0x22] @ ''a'' @ [CHR 0x22]),
           isError = False\<rparr>)"
proof -
  let ?vals = "[[Str ''a'', Str ''b''], [Str ''A'', Str ''xa'']]"
  let ?a = "\<lparr>spreadsheetId = Some ''id1'', url = None, gid = None, sheetName = ''S'',
      searchText = ''a'', matchType = None, maxResults = Some 1, numRows = None\<rparr>"
  have p: "parseSpreadsheetInput (\<lambda>u. True) (spreadsheetId ?a) = Inr (''id1'', None)"
    by (simp add: parseSpreadsheetInput_def)
  have v: "values_get (gridApi [] ?vals) ''id1'' (sheetName ?a @ ''!A1:ZZ10000'')
           = Inr \<lparr>range = Some ''S!A1:ZZ10000'', values = Some ?vals\<rparr>"
    by (simp add: gridApi_def)
  have m: "searchMatches ''contains'' 1 ''a'' ?vals
           = [\<lparr>cellRef = ''A1'', value = ''a'', row = 1, col = ''A''\<rparr>,
              \<lparr>cellRef = ''A2'', value = ''A'', row = 2, col = ''A''\<rparr>,
              \<lparr>cellRef = ''B2'', value = ''xa'', row = 2, col = ''B''\<rparr>]"
    by code_simp
  have am: "allMatches ''contains'' ''a'' ?vals
           = [\<lparr>cellRef = ''A1'', value = ''a'', row = 1, col = ''A''\<rparr>,
              \<lparr>cellRef = ''A2'', value = ''A'', row = 2, col = ''A''\<rparr>,
              \<lparr>cellRef = ''B2'', value = ''xa'', row = 2, col = ''B''\<rparr>]"
    using m by (simp only: searchMatches_allMatches)
  have "search_values (\<lambda>u. True) (gridApi [] ?vals) ?a =
           ([ValuesGet ''id1'' (sheetName ?a @ ''!A1:ZZ10000'')],
            Inr \<lparr>content =
                   (let matchTy = or_string (matchType ?a) ''contains'';
                        found = allMatches matchTy (searchText ?a) ?vals
                    in if found = [] then NoMatchesFound (searchText ?a) matchTy (sheetName ?a)
                       else FoundMatches (int (length found)) (searchText ?a) matchTy (sheetName ?a)
                              (if 1 < int (length found) then Some 1 else None)
                              (join ''\<newline>'' (map matchLine (take (nat 1) found)))),
                 isError = False\<rparr>)"
    using search_values_soft_cap[of "\<lambda>u. True" ?a "''id1''" None "gridApi [] ?vals" _ ?vals 1, OF p v]
    by simp
  then show ?thesis
    by (simp add: or_string_def matchLine_def am)
qed

text \<open>
  Claim C4. On the grid \<open>[["Name","Score"],["Alice","95"]]\<close> of sheet \<open>Sheet1\<close>, searching
  \<open>Alice\<close> with match type \<open>exact\<close> and \<open>maxResults\<close> 10 finds exactly one match, with \<open>cellRef\<close>
  \<open>A2\<close>, value \<open>Alice\<close>, row 2 and column \<open>A\<close>, and the handler reports it. On every grid the
  scan returns, in row-major order, the cells whose lower-cased text equals the
  lower-cased search text (\<open>exact\<close>) or contains it as a substring (\<open>contains\<close>).
\<close>

theorem search_values_alice:
  "searchMatches ''exact'' 10 ''Alice'' [[Str ''Name'', Str ''Score''], [Str ''Alice'', Str ''95'']]
     = [\<lparr>cellRef = ''A2'', value = ''Alice'', row = 2, col = ''A''\<rparr>]
   \<and> search_values accepted
         (gridApi shs [[Str ''Name'', Str ''Score''], [Str ''Alice'', Str ''95'']])
         \<lparr>spreadsheetId = Some ''id1'', url = None, gid = None, sheetName = ''Sheet1'',
          searchText = ''Alice'', matchType = Some ''exact'', maxResults = Some 10,
          numRows = None\<rparr>
     = ([ValuesGet ''id1'' ''Sheet1!A1:ZZ10000''],
        Inr \<lparr>content = FoundMatches 1 ''Alice'' ''exact'' ''Sheet1'' None
                         (''  A2: '' @ [CHR 0x22] @ ''Alice'' @ [CHR 0x22]),
             isError = False\<rparr>)
   \<and> searchMatches ''exact'' n t vals
     = map matchAt (filter (\<lambda>(rowIdx, colIdx, c). toLowerCase (cellText c) = toLowerCase t)
                      (cellsRowMajor vals))
   \<and> searchMatches ''contains'' n t vals
     = map matchAt (filter (\<lambda>(rowIdx, colIdx, c).
                              \<exists>pre post. toLowerCase (cellText c) = pre @ toLowerCase t @ post)
                      (cellsRowMajor vals))"
proof -
  have m: "searchMatches ''exact'' 10 ''Alice''
             [[Str ''Name'', Str ''Score''], [Str ''Alice'', Str ''95'']]
           = [\<lparr>cellRef = ''A2'', value = ''Alice'', row = 2, col = ''A''\<rparr>]"
    by code_simp
  have h: "search_values accepted
         (gridApi shs [[Str ''Name'', Str ''Score''], [Str ''Alice'', Str ''95'']])
         \<lparr>spreadsheetId = Some ''id1'', url = None, gid = None, sheetName = ''Sheet1'',
          searchText = ''Alice'', matchType = Some ''exact'', maxResults = Some 10,
          numRows = None\<rparr>
     = ([ValuesGet ''id1'' ''Sheet1!A1:ZZ10000''],
        Inr \<lparr>content = FoundMatches 1 ''Alice'' ''exact'' ''Sheet1'' None
                         (''  A2: '' @ [CHR 0x22] @ ''Alice'' @ [CHR 0x22]),
             isError = False\<rparr>)"
    by (simp add: search_values_def parseSpreadsheetInput_def getValues_def gridApi_def
        or_string_def or_default_def m slice0_def matchLine_def)
  have e: "cellMatches ''exact'' t
           = (\<lambda>(rowIdx, colIdx, c). toLowerCase (cellText c) = toLowerCase t)"
    by (simp add: cellMatches_def)
  have c: "cellMatches ''contains'' t
           = (\<lambda>(rowIdx, colIdx, c).
                \<exists>pre post. toLowerCase (cellText c) = pre @ toLowerCase t @ post)"
    by (simp add: cellMatches_def)
  show ?thesis
    using m h by (simp add: searchMatches_allMatches allMatches_def e c)
qed

section \<open>The URL parser: bare ids\<close>

text \<open>
  Claim C7. A non-empty input that starts with neither \<open>http://\<close> nor \<open>https://\<close> is
  returned unchanged as the spreadsheet id, with gid null.
\<close>

theorem parseSpreadsheetInput_bare_id:
  "inp \<noteq> [] \<Longrightarrow> \<not> startsWith inp ''http://'' \<Longrightarrow> \<not> startsWith inp ''https://''
   \<Longrightarrow> parseSpreadsheetInput accepted (Some inp) = Inr (inp, None)"
  by (simp add: parseSpreadsheetInput_def)

theorem parseSpreadsheetInput_bare_id_witness:
  "parseSpreadsheetInput (\<lambda>u. False) (Some ''1FmDx17Gm2aEa0andQE_JP8qcJD5XfeYhIABvZeFX_Zo'')
   = Inr (''1FmDx17Gm2aEa0andQE_JP8qcJD5XfeYhIABvZeFX_Zo'', None)"
  using parseSpreadsheetInput_bare_id [of "''1FmDx17Gm2aEa0andQE_JP8qcJD5XfeYhIABvZeFX_Zo''" "\<lambda>u. False"]
  by simp

section \<open>get-sheet-by-gid: validation before any request\<close>

text \<open>
  Claim C5. Called with neither a \<open>spreadsheetId\<close> nor a \<open>url\<close>, the handler of
  get-sheet-by-gid returns an error-flagged result and the client has sent no request.
  With an identifier that parses, but no gid from the URL and none in the \<open>gid\<close>
  argument, it returns an error-flagged result, again with no request. (An identifier
  that the parser rejects makes the handler throw, with no request; the callback the
  server registers returns an error-flagged result for it.)
\<close>

theorem get_sheet_by_gid_validation:
  "(\<not> truthy (spreadsheetId a) \<and> \<not> truthy (url a) \<longrightarrow>
      get_sheet_by_gid accepted api a
        = ([], Inr \<lparr>content = MissingSpreadsheetId, isError = True\<rparr>))
   \<and> (truthy (or_else (spreadsheetId a) (url a))
        \<and> parseSpreadsheetInput accepted (or_else (spreadsheetId a) (url a)) = Inr (sid, pg)
        \<and> \<not> truthy pg \<and> \<not> truthy (gid a) \<longrightarrow>
      get_sheet_by_gid accepted api a
        = ([], Inr \<lparr>content = NoGidProvided, isError = True\<rparr>))
   \<and> (truthy (or_else (spreadsheetId a) (url a))
        \<and> parseSpreadsheetInput accepted (or_else (spreadsheetId a) (url a)) = Inl e \<longrightarrow>
      get_sheet_by_gid accepted api a = ([], Inl e)
      \<and> fst (toolCallback ''get-sheet-by-gid'' (get_sheet_by_gid accepted api a)) = []
      \<and> isError (snd (toolCallback ''get-sheet-by-gid'' (get_sheet_by_gid accepted api a))))"
proof (intro conjI impI)
  assume "\<not> truthy (spreadsheetId a) \<and> \<not> truthy (url a)"
  then show "get_sheet_by_gid accepted api a
        = ([], Inr \<lparr>content = MissingSpreadsheetId, isError = True\<rparr>)"
    by (simp add: get_sheet_by_gid_def or_else_def)
next
  assume h: "truthy (or_else (spreadsheetId a) (url a))
        \<and> parseSpreadsheetInput accepted (or_else (spreadsheetId a) (url a)) = Inr (sid, pg)
        \<and> \<not> truthy pg \<and> \<not> truthy (gid a)"
  then show "get_sheet_by_gid accepted api a
        = ([], Inr \<lparr>content = NoGidProvided, isError = True\<rparr>)"
    by (cases pg) (simp_all add: get_sheet_by_gid_def Let_def truthy_def)
next
  assume h: "truthy (or_else (spreadsheetId a) (url a))
        \<and> parseSpreadsheetInput accepted (or_else (spreadsheetId a) (url a)) = Inl e"
  then show r: "get_sheet_by_gid accepted api a = ([], Inl e)"
    by (simp add: get_sheet_by_gid_def Let_def)
  show "fst (toolCallback ''get-sheet-by-gid'' (get_sheet_by_gid accepted api a)) = []"
    by (simp add: r toolCallback_def Let_def)
  show "isError (snd (toolCallback ''get-sheet-by-gid'' (get_sheet_by_gid accepted api a)))"
    by (simp add: r toolCallback_def Let_def)
qed

theorem get_sheet_by_gid_validation_witness:
  "get_sheet_by_gid (\<lambda>u. True) (gridApi [] [])
     \<lparr>spreadsheetId = None, url = None, gid = None, sheetName = [], searchText = [],
      matchType = None, maxResults = None, numRows = None\<rparr>
     = ([], Inr \<lparr>content = MissingSpreadsheetId, isError = True\<rparr>)
   \<and> get_sheet_by_gid (\<lambda>u. True) (gridApi [] [])
     \<lparr>spreadsheetId = Some ''id1'', url = None, gid = None, sheetName = [], searchText = [],
      matchType = None, maxResults = None, numRows = None\<rparr>
     = ([], Inr \<lparr>content = NoGidProvided, isError = True\<rparr>)
   \<and> get_sheet_by_gid (\<lambda>u. True) (gridApi [] [])
     \<lparr>spreadsheetId = Some ''https://example.com/'', url = None, gid = None, sheetName = [],
      searchText = [], matchType = None, maxResults = None, numRows = None\<rparr>
     = ([], Inl (Error (''Invalid Google Sheets URL. Expected format: '' @
                      ''https://docs.google.com/spreadsheets/d/{SPREADSHEET_ID}/edit'')))"
proof -
  let ?e = "Error (''Invalid Google Sheets URL. Expected format: '' @
                      ''https://docs.google.com/spreadsheets/d/{SPREADSHEET_ID}/edit'')"
  let ?a1 = "\<lparr>spreadsheetId = None, url = None, gid = None, sheetName = [], searchText = [],
      matchType = None, maxResults = None, numRows = None\<rparr>"
  let ?a2 = "\<lparr>spreadsheetId = Some ''id1'', url = None, gid = None, sheetName = [], searchText = [],
      matchType = None, maxResults = None, numRows = None\<rparr>"
  let ?a3 = "\<lparr>spreadsheetId = Some ''https://example.com/'', url = None, gid = None, sheetName = [],
      searchText = [], matchType = None, maxResults = None, numRows = None\<rparr>"
  have p3: "parseSpreadsheetInput (\<lambda>u. True) (Some ''https://example.com/'') = Inl ?e"
    by (simp add: parseSpreadsheetInput_def parseGoogleSheetsUrl_def)
  have 1: "get_sheet_by_gid (\<lambda>u. True) (gridApi [] []) ?a1
           = ([], Inr \<lparr>content = MissingSpreadsheetId, isError = True\<rparr>)"
    using get_sheet_by_gid_validation [where a = ?a1 and accepted = "\<lambda>u. True" and api = "gridApi [] []"]
    by (simp add: truthy_def)
  have 2: "get_sheet_by_gid (\<lambda>u. True) (gridApi [] []) ?a2
           = ([], Inr \<lparr>content = NoGidProvided, isError = True\<rparr>)"
    using get_sheet_by_gid_validation [where a = ?a2 and accepted = "\<lambda>u. True" and api = "gridApi [] []"
        and sid = "''id1''" and pg = None]
    by (simp add: truthy_def or_else_def parseSpreadsheetInput_def)
  have 3: "get_sheet_by_gid (\<lambda>u. True) (gridApi [] []) ?a3 = ([], Inl ?e)"
    using get_sheet_by_gid_validation [where a = ?a3 and accepted = "\<lambda>u. True" and api = "gridApi [] []"
        and e = ?e] p3
    by (simp add: truthy_def or_else_def)
  show ?thesis using 1 2 3 by simp
qed


section \<open>get-sheet-by-gid: a gid that no sheet has\<close>

lemma find_none: "(\<forall>x\<in>set xs. \<not> P x) \<Longrightarrow> find P xs = None"
  by (induction xs) auto

lemma find_first: "P s \<Longrightarrow> (\<forall>x\<in>set pre. \<not> P x) \<Longrightarrow> find P (pre @ s # post) = Some s"
  by (induction pre) auto

text \<open>
  Claim C6. When the metadata of the spreadsheet is fetched and the gid, as a string,
  differs from the decimal \<open>sheetId\<close> of every sheet, the client's \<open>getSheetByGid\<close> returns
  null and does not throw, and the handler returns the error-flagged result ``Sheet not
  found''. When some sheet's \<open>sheetId\<close> reads as the gid, the first such sheet is returned
  and the handler reports it.
\<close>

theorem getSheetByGid_not_found:
  assumes "spreadsheets_get api sid False = Inr ss"
    and "truthy (or_else (spreadsheetId a) (url a))"
    and "parseSpreadsheetInput accepted (or_else (spreadsheetId a) (url a)) = Inr (sid, pg)"
    and "(if \<not> truthy pg \<and> truthy (gid a) then gid a else pg) = Some g" and "g \<noteq> []"
  shows "((\<forall>s\<in>set (sheetsOf ss). sheetIdString s \<noteq> Some g) \<longrightarrow>
            getSheetByGid api sid g = ([SpreadsheetsGet sid False], Inr None)
            \<and> get_sheet_by_gid accepted api a
                = ([SpreadsheetsGet sid False],
                   Inr \<lparr>content = SheetNotFound g, isError = True\<rparr>))
         \<and> (sheetsOf ss = pre @ s # post \<and> sheetIdString s = Some g
              \<and> (\<forall>x\<in>set pre. sheetIdString x \<noteq> Some g) \<longrightarrow>
            getSheetByGid api sid g = ([SpreadsheetsGet sid False], Inr (Some s))
            \<and> get_sheet_by_gid accepted api a
                = ([SpreadsheetsGet sid False],
                   Inr \<lparr>content = SheetFound s, isError = False\<rparr>))"
proof (intro conjI impI)
  assume n: "\<forall>s\<in>set (sheetsOf ss). sheetIdString s \<noteq> Some g"
  then have f: "(case sheets ss of None \<Rightarrow> None
                 | Some shs \<Rightarrow> find (\<lambda>s. sheetIdString s = Some g) shs) = None"
    by (cases "sheets ss") (simp_all add: sheetsOf_def find_none)
  show c: "getSheetByGid api sid g = ([SpreadsheetsGet sid False], Inr None)"
    using assms(1) f by (simp add: getSheetByGid_def getSpreadsheet_def)
  show "get_sheet_by_gid accepted api a
          = ([SpreadsheetsGet sid False], Inr \<lparr>content = SheetNotFound g, isError = True\<rparr>)"
    using assms(2-5) c by (simp add: get_sheet_by_gid_def Let_def)
next
  assume h: "sheetsOf ss = pre @ s # post \<and> sheetIdString s = Some g
              \<and> (\<forall>x\<in>set pre. sheetIdString x \<noteq> Some g)"
  then obtain shs where shs: "sheets ss = Some shs" "shs = pre @ s # post"
    by (cases "sheets ss") (simp_all add: sheetsOf_def)
  have f: "find (\<lambda>s. sheetIdString s = Some g) shs = Some s"
    using h shs(2) find_first[of "\<lambda>s. sheetIdString s = Some g" s pre post] by simp
  show c: "getSheetByGid api sid g = ([SpreadsheetsGet sid False], Inr (Some s))"
    using assms(1) f shs(1) by (simp add: getSheetByGid_def getSpreadsheet_def)
  show "get_sheet_by_gid accepted api a
          = ([SpreadsheetsGet sid False], Inr \<lparr>content = SheetFound s, isError = False\<rparr>)"
    using assms(2-5) c by (simp add: get_sheet_by_gid_def Let_def)
qed

theorem getSheetByGid_not_found_witness:
  "get_sheet_by_gid (\<lambda>u. True) (gridApi [sheetNumbered 0 ''A'', sheetNumbered 1850828774 ''B''] [])
     \<lparr>spreadsheetId = Some ''id1'', url = None, gid = Some ''999999999'', sheetName = [],
      searchText = [], matchType = None, maxResults = None, numRows = None\<rparr>
     = ([SpreadsheetsGet ''id1'' False],
        Inr \<lparr>content = SheetNotFound ''999999999'', isError = True\<rparr>)
   \<and> get_sheet_by_gid (\<lambda>u. True) (gridApi [sheetNumbered 0 ''A'', sheetNumbered 1850828774 ''B''] [])
     \<lparr>spreadsheetId = Some ''id1'', url = None, gid = Some ''1850828774'', sheetName = [],
      searchText = [], matchType = None, maxResults = None, numRows = None\<rparr>
     = ([SpreadsheetsGet ''id1'' False],
        Inr \<lparr>content = SheetFound (sheetNumbered 1850828774 ''B''), isError = False\<rparr>)"
proof -
  let ?api = "gridApi [sheetNumbered 0 ''A'', sheetNumbered 1850828774 ''B''] []"
  let ?a1 = "\<lparr>spreadsheetId = Some ''id1'', url = None, gid = Some ''999999999'', sheetName = [],
      searchText = [], matchType = None, maxResults = None, numRows = None\<rparr>"
  let ?a2 = "\<lparr>spreadsheetId = Some ''id1'', url = None, gid = Some ''1850828774'', sheetName = [],
      searchText = [], matchType = None, maxResults = None, numRows = None\<rparr>"
  let ?ss = "\<lparr>sheets = Some [sheetNumbered 0 ''A'', sheetNumbered 1850828774 ''B'']\<rparr>"
  have s0: "sheetIdString (sheetNumbered 0 ''A'') = Some ''0''"
    by (simp add: sheetIdString_def sheetNumbered_def toString_def char_of_def bit_Suc_0_iff)
  have s1: "sheetIdString (sheetNumbered 1850828774 ''B'') = Some ''1850828774''"
    by (simp add: sheetIdString_def sheetNumbered_def toString_def char_of_def bit_Suc_0_iff)
  have f: "spreadsheets_get ?api ''id1'' False = Inr ?ss"
    by (simp add: gridApi_def)
  have 1: "get_sheet_by_gid (\<lambda>u. True) ?api ?a1
     = ([SpreadsheetsGet ''id1'' False],
        Inr \<lparr>content = SheetNotFound ''999999999'', isError = True\<rparr>)"
    using getSheetByGid_not_found [where api = ?api and sid = "''id1''" and ss = ?ss and a = ?a1
        and accepted = "\<lambda>u. True" and pg = None and g = "''999999999''", OF f]
    by (simp add: truthy_def or_else_def parseSpreadsheetInput_def sheetsOf_def s0 s1)
  have 2: "get_sheet_by_gid (\<lambda>u. True) ?api ?a2
     = ([SpreadsheetsGet ''id1'' False],
        Inr \<lparr>content = SheetFound (sheetNumbered 1850828774 ''B''), isError = False\<rparr>)"
    using getSheetByGid_not_found [where api = ?api and sid = "''id1''" and ss = ?ss and a = ?a2
        and accepted = "\<lambda>u. True" and pg = None and g = "''1850828774''"
        and pre = "[sheetNumbered 0 ''A'']" and s = "sheetNumbered 1850828774 ''B''" and post = "[]", OF f]
    by (simp add: truthy_def or_else_def parseSpreadsheetInput_def sheetsOf_def s0 s1)
  show ?thesis using 1 2 by simp
qed

section \<open>get-sheet-preview: the number of rows\<close>

text \<open>
  Claim C10. The number of rows get-sheet-preview asks for is \<open>min(numRows, 50)\<close>, with
  10 in the place of an absent or zero \<open>numRows\<close>: it is never more than 50, and the one
  request the handler sends is for the range \<open>A1:ZZ\<close> followed by that number.
\<close>

theorem get_sheet_preview_rows:
  "previewRows a = (case numRows a of None \<Rightarrow> 10 | Some n \<Rightarrow> if n = 0 then 10 else min n 50)
   \<and> previewRows a \<le> 50
   \<and> (parseSpreadsheetInput accepted (spreadsheetId a) = Inr (sid, g) \<longrightarrow>
        fst (get_sheet_preview accepted api a)
          = [ValuesGet sid (sheetName a @ ''!A1:ZZ'' @ toString (previewRows a))])"
proof (intro conjI impI)
  show "previewRows a = (case numRows a of None \<Rightarrow> 10 | Some n \<Rightarrow> if n = 0 then 10 else min n 50)"
    by (simp add: previewRows_def or_default_def split: option.splits)
  show "previewRows a \<le> 50"
    by (simp add: previewRows_def)
next
  assume p: "parseSpreadsheetInput accepted (spreadsheetId a) = Inr (sid, g)"
  show "fst (get_sheet_preview accepted api a)
          = [ValuesGet sid (sheetName a @ ''!A1:ZZ'' @ toString (previewRows a))]"
    by (simp add: get_sheet_preview_def p getValues_def Let_def split: sum.splits option.splits)
qed

theorem get_sheet_preview_rows_witness:
  "fst (get_sheet_preview (\<lambda>u. True) (gridApi [] [[Str ''x'']])
     \<lparr>spreadsheetId = Some ''id1'', url = None, gid = None, sheetName = ''S'',
      searchText = [], matchType = None, maxResults = None, numRows = Some 1000\<rparr>)
   = [ValuesGet ''id1'' ''S!A1:ZZ50'']"
proof -
  let ?a = "\<lparr>spreadsheetId = Some ''id1'', url = None, gid = None, sheetName = ''S'',
      searchText = [], matchType = None, maxResults = None, numRows = Some 1000\<rparr>"
  have t: "toString 50 = ''50''"
    by (simp add: toString_def char_of_def bit_Suc_0_iff)
  show ?thesis
    using get_sheet_preview_rows [where a = ?a and accepted = "\<lambda>u. True" and sid = "''id1''"
        and g = None and api = "gridApi [] [[Str ''x'']]"]
    by (simp add: parseSpreadsheetInput_def t)
qed


section \<open>The URL parser: which gid is returned\<close>

lemma isIdChar_plain:
  "isIdChar c \<Longrightarrow> \<not> isC0OrSpace c \<and> c \<noteq> CHR ''#'' \<and> c \<noteq> CHR ''?'' \<and> c \<noteq> CHR ''/''"
  by (auto simp: isIdChar_def isC0OrSpace_def Let_def)

lemma isDigit_plain:
  "isDigit c \<Longrightarrow> \<not> isC0OrSpace c \<and> c \<noteq> CHR ''#'' \<and> c \<noteq> CHR ''?''"
  by (auto simp: isDigit_def isC0OrSpace_def Let_def)

lemma isQueryValueChar_plain:
  "isQueryValueChar c \<Longrightarrow>
     \<not> isC0OrSpace c \<and> c \<noteq> CHR ''#'' \<and> c \<noteq> CHR ''&'' \<and> c \<noteq> CHR ''+'' \<and> c \<noteq> CHR ''%''"
  by (auto simp: isQueryValueChar_def isC0OrSpace_def Let_def)

lemma dropWhile_none: "(\<forall>x\<in>set xs. \<not> P x) \<Longrightarrow> dropWhile P xs = xs"
  by (induction xs) auto

lemma url_input_plain: "(\<forall>c\<in>set u. \<not> isC0OrSpace c) \<Longrightarrow> url_input u = u"
proof -
  assume a: "\<forall>c\<in>set u. \<not> isC0OrSpace c"
  have t: "\<not> isTabOrNewline c" if "c \<in> set u" for c
    using a that by (auto simp: isTabOrNewline_def isC0OrSpace_def)
  have 1: "dropWhile isC0OrSpace u = u" using a by (rule dropWhile_none)
  have 2: "dropWhile isC0OrSpace (rev u) = rev u" using a by (intro dropWhile_none) simp
  have 3: "filter (\<lambda>c. \<not> isTabOrNewline c) u = u" using t by (simp add: filter_id_conv)
  show ?thesis by (simp add: url_input_def 1 2 3)
qed

lemma takeWhile_run: "(\<forall>x\<in>set xs. P x) \<Longrightarrow> \<not> P y \<Longrightarrow> takeWhile P (xs @ y # ys) = xs"
  by (induction xs) auto

lemma takeWhile_all: "(\<forall>x\<in>set xs. P x) \<Longrightarrow> takeWhile P xs = xs"
  by (induction xs) auto

lemma takeWhile_over: "(\<forall>x\<in>set xs. P x) \<Longrightarrow> takeWhile P (xs @ ys) = xs @ takeWhile P ys"
  by (induction xs) auto

lemma dropWhile_over: "(\<forall>x\<in>set xs. P x) \<Longrightarrow> dropWhile P (xs @ ys) = dropWhile P ys"
  by (induction xs) auto

lemma split_no_sep: "sep \<notin> set s \<Longrightarrow> split sep s = [s]"
  by (induction s) auto

lemma percentDecode_plain: "CHR ''%'' \<notin> set s \<Longrightarrow> percentDecode s = s"
  by (induction s rule: percentDecode.induct) auto

lemma plusToSpace_plain: "CHR ''+'' \<notin> set s \<Longrightarrow> plusToSpace s = s"
  by (induction s) (auto simp: plusToSpace_def)

lemma matchAfter_skip:
  "lit \<noteq> [] \<Longrightarrow> hd lit \<notin> set pre \<Longrightarrow> matchAfter lit cls (pre @ ys) = matchAfter lit cls ys"
proof (induction pre)
  case Nil
  then show ?case by simp
next
  case (Cons c pre)
  then obtain l lit' where l: "lit = l # lit'" "c \<noteq> l" by (cases lit) auto
  then show ?case using Cons by simp
qed

lemma includes_js_skip:
  "lit \<noteq> [] \<Longrightarrow> hd lit \<notin> set pre \<Longrightarrow> includes_js (pre @ ys) lit = includes_js ys lit"
proof (induction pre)
  case Nil
  then show ?case by simp
next
  case (Cons c pre)
  then obtain l lit' where l: "lit = l # lit'" "c \<noteq> l" by (cases lit) auto
  then show ?case using Cons by simp
qed

lemma matchAfter_includes: "matchAfter lit cls s = Some m \<Longrightarrow> includes_js s lit"
  by (induction s) (auto split: if_splits)


lemma sheetsUrl_id:
  assumes "sid \<noteq> []" and "list_all isIdChar sid"
  shows "matchAfter ''/spreadsheets/d/'' isIdChar (sheetsUrl sid rest) = Some sid"
proof -
  have n: "\<not> isIdChar CHR ''/''" by (simp add: isIdChar_def)
  have t: "takeWhile isIdChar (sid @ CHR ''/'' # ys) = sid" for ys
    using assms(2) n by (intro takeWhile_run) (simp_all add: list_all_iff)
  show ?thesis
    using assms(1) by (simp add: sheetsUrl_def t)
qed

lemma sheetsUrl_startsWith: "startsWith (sheetsUrl sid rest) ''https://''"
  by (simp add: sheetsUrl_def)

lemma sheetsUrl_nonempty: "sheetsUrl sid rest \<noteq> []"
  by (simp add: sheetsUrl_def)

lemma sheetsUrl_input:
  assumes "list_all isIdChar sid" and "\<forall>c\<in>set rest. \<not> isC0OrSpace c"
  shows "url_input (sheetsUrl sid rest) = sheetsUrl sid rest"
proof (rule url_input_plain)
  have "\<forall>c\<in>set sid. \<not> isC0OrSpace c"
    using assms(1) isIdChar_plain by (auto simp: list_all_iff)
  then show "\<forall>c\<in>set (sheetsUrl sid rest). \<not> isC0OrSpace c"
    using assms(2) by (simp add: sheetsUrl_def isC0OrSpace_def ball_Un)
qed

lemma sheetsUrl_query:
  assumes "list_all isIdChar sid" and "\<forall>c\<in>set q. \<not> isC0OrSpace c \<and> c \<noteq> CHR ''#''"
    and "\<forall>c\<in>set frag. \<not> isC0OrSpace c"
  shows "url_query (sheetsUrl sid (CHR ''?'' # q @ CHR ''#'' # frag)) = q"
proof -
  have i: "url_input (sheetsUrl sid (CHR ''?'' # q @ CHR ''#'' # frag))
           = sheetsUrl sid (CHR ''?'' # q @ CHR ''#'' # frag)"
    using assms by (intro sheetsUrl_input) (auto simp: isC0OrSpace_def)
  have s: "\<forall>c\<in>set sid. c \<noteq> CHR ''#''" "\<forall>c\<in>set sid. c \<noteq> CHR ''?''"
    using assms(1) isIdChar_plain by (auto simp: list_all_iff)
  have q: "\<forall>c\<in>set q. c \<noteq> CHR ''#''" using assms(2) by simp
  have 1: "takeWhile (\<lambda>c. c \<noteq> CHR ''#'')
             (''https://docs.google.com/spreadsheets/d/'' @ sid @ ''/edit'' @ CHR ''?'' # q @ CHR ''#'' # frag)
           = ''https://docs.google.com/spreadsheets/d/'' @ sid @ ''/edit'' @ CHR ''?'' # q"
    using takeWhile_run[of "''https://docs.google.com/spreadsheets/d/'' @ sid @ ''/edit'' @ CHR ''?'' # q"
        "\<lambda>c. c \<noteq> CHR ''#''" "CHR ''#''" frag] s(1) q
    by (simp add: ball_Un)
  have 2: "dropWhile (\<lambda>c. c \<noteq> CHR ''?'')
             (''https://docs.google.com/spreadsheets/d/'' @ sid @ ''/edit'' @ CHR ''?'' # q)
           = CHR ''?'' # q"
    using dropWhile_over[of sid "\<lambda>c. c \<noteq> CHR ''?''"] s(2) by simp
  show ?thesis
    unfolding url_query_def i unfolding sheetsUrl_def 1 2 by simp
qed

lemma sheetsUrl_no_query:
  assumes "list_all isIdChar sid" and "\<forall>c\<in>set frag. \<not> isC0OrSpace c"
  shows "url_query (sheetsUrl sid (CHR ''#'' # frag)) = []"
    and "url_query (sheetsUrl sid []) = []"
proof -
  have i: "url_input (sheetsUrl sid (CHR ''#'' # frag)) = sheetsUrl sid (CHR ''#'' # frag)"
    using assms by (intro sheetsUrl_input) (auto simp: isC0OrSpace_def)
  have j: "url_input (sheetsUrl sid []) = sheetsUrl sid []"
    using assms by (intro sheetsUrl_input) (auto simp: isC0OrSpace_def)
  have s: "\<forall>c\<in>set sid. c \<noteq> CHR ''#''" "\<forall>c\<in>set sid. c \<noteq> CHR ''?''"
    using assms(1) isIdChar_plain by (auto simp: list_all_iff)
  have 1: "takeWhile (\<lambda>c. c \<noteq> CHR ''#'')
             (''https://docs.google.com/spreadsheets/d/'' @ sid @ ''/edit'' @ CHR ''#'' # frag)
           = ''https://docs.google.com/spreadsheets/d/'' @ sid @ ''/edit''"
    using takeWhile_run[of "''https://docs.google.com/spreadsheets/d/'' @ sid @ ''/edit''"
        "\<lambda>c. c \<noteq> CHR ''#''" "CHR ''#''" frag] s(1)
    by (simp add: ball_Un)
  have t1: "takeWhile (\<lambda>c. c \<noteq> CHR ''#'')
             (''https://docs.google.com/spreadsheets/d/'' @ sid @ ''/edit'')
           = ''https://docs.google.com/spreadsheets/d/'' @ sid @ ''/edit''"
    using s(1) by (intro takeWhile_all) (simp add: ball_Un)
  have 2: "dropWhile (\<lambda>c. c \<noteq> CHR ''?'')
             (''https://docs.google.com/spreadsheets/d/'' @ sid @ ''/edit'') = []"
    using s(2) by (simp add: ball_Un)
  show "url_query (sheetsUrl sid (CHR ''#'' # frag)) = []"
    unfolding url_query_def i unfolding sheetsUrl_def using 1 2 by simp
  show "url_query (sheetsUrl sid []) = []"
    unfolding url_query_def j unfolding sheetsUrl_def using t1 2 by simp
qed

lemma gid_pair:
  assumes "\<forall>c\<in>set v. c \<noteq> CHR ''&'' \<and> c \<noteq> CHR ''+'' \<and> c \<noteq> CHR ''%''"
  shows "map urlencodedPair (filter (\<lambda>piece. piece \<noteq> []) (split (CHR ''&'') (''gid='' @ v)))
         = [(''gid'', v)]"
proof -
  have 1: "split (CHR ''&'') (''gid='' @ v) = [''gid='' @ v]"
    using assms by (intro split_no_sep) auto
  have "CHR ''+'' \<notin> set v" "CHR ''%'' \<notin> set v"
    using assms by auto
  then have 2: "percentDecode (plusToSpace v) = v"
    by (simp add: percentDecode_plain plusToSpace_plain)
  have 3: "percentDecode (plusToSpace ''gid'') = ''gid''"
    by (simp add: plusToSpace_def)
  show ?thesis
    unfolding 1 by (simp add: urlencodedPair_def 2 3)
qed

lemma sheetsUrl_fragment:
  assumes "list_all isIdChar sid" and "CHR ''#'' \<notin> set q" and "h \<noteq> []" and "list_all isDigit h"
  shows "includes_js (sheetsUrl sid (q @ ''#gid='' @ h)) ''#gid=''"
    and "matchAfter ''#gid='' isDigit (sheetsUrl sid (q @ ''#gid='' @ h)) = Some h"
proof -
  let ?pre = "''https://docs.google.com/spreadsheets/d/'' @ sid @ ''/edit'' @ q"
  have s: "CHR ''#'' \<notin> set ?pre"
    using assms(1,2) isIdChar_plain by (auto simp: list_all_iff)
  have e: "sheetsUrl sid (q @ ''#gid='' @ h) = ?pre @ (''#gid='' @ h)"
    by (simp add: sheetsUrl_def)
  have t: "takeWhile isDigit h = h"
    using assms(4) by (intro takeWhile_all) (simp add: list_all_iff)
  show "includes_js (sheetsUrl sid (q @ ''#gid='' @ h)) ''#gid=''"
    unfolding e using s by (subst includes_js_skip) simp_all
  show "matchAfter ''#gid='' isDigit (sheetsUrl sid (q @ ''#gid='' @ h)) = Some h"
    unfolding e using s assms(3) by (subst matchAfter_skip) (simp_all add: t)
qed

lemma no_hash_no_fragment: "CHR ''#'' \<notin> set u \<Longrightarrow> \<not> includes_js u ''#gid=''"
  by (induction u) auto


lemma parseGoogleSheetsUrl_gid:
  assumes "parseGoogleSheetsUrl accepted u = Inr (s, g)"
  shows "g = (if truthy (searchParams_get u ''gid'') then searchParams_get u ''gid''
              else matchAfter ''#gid='' isDigit u)"
proof (cases "truthy (searchParams_get u ''gid'')")
  case True
  then show ?thesis using assms
    by (simp add: parseGoogleSheetsUrl_def Let_def split: option.splits if_splits)
next
  case False
  have n: "\<not> truthy None" by (simp add: truthy_def)
  show ?thesis
  proof (cases "matchAfter ''#gid='' isDigit u")
    case None
    then show ?thesis using assms False n
      by (simp add: parseGoogleSheetsUrl_def Let_def split: option.splits if_splits)
  next
    case (Some h)
    then have "includes_js u ''#gid=''" by (rule matchAfter_includes)
    then show ?thesis using assms False n Some
      by (simp add: parseGoogleSheetsUrl_def Let_def split: option.splits if_splits)
  qed
qed

lemma parseSpreadsheetInput_url:
  assumes "startsWith u ''https://''"
    and "matchAfter ''/spreadsheets/d/'' isIdChar u = Some sid" and "accepted u"
  shows "parseSpreadsheetInput accepted (Some u)
         = Inr (sid, if truthy (searchParams_get u ''gid'') then searchParams_get u ''gid''
                     else matchAfter ''#gid='' isDigit u)"
proof -
  have n: "u \<noteq> []" using assms(1) by auto
  obtain g where g: "parseGoogleSheetsUrl accepted u = Inr (sid, g)"
    using assms(2,3) by (simp add: parseGoogleSheetsUrl_def Let_def)
  show ?thesis
    using parseGoogleSheetsUrl_gid[OF g] g n assms(1)
    by (simp add: parseSpreadsheetInput_def)
qed

text \<open>
  Claim C3, as the code has it. For a URL that parses, the gid is the query parameter
  \<open>gid\<close> when that is not empty, and otherwise the digits of the first \<open>#gid=<digits>\<close> of
  the string, or null when there is none. On the URLs
  \<open>https://docs.google.com/spreadsheets/d/ID/edit...\<close> that the URL constructor accepts:
  with \<open>?gid=G#gid=H\<close>, \<open>G\<close> not empty, the result is \<open>G\<close>; with \<open>#gid=H\<close> alone, and with
  the empty query value of \<open>?gid=#gid=H\<close>, the result is \<open>H\<close>; with neither, it is null.
\<close>

theorem parseSpreadsheetInput_gid_precedence:
  assumes "sid \<noteq> []" and "list_all isIdChar sid"
    and "G \<noteq> []" and "list_all isQueryValueChar G"
    and "H \<noteq> []" and "list_all isDigit H"
  shows "(accepted (sheetsUrl sid (''?gid='' @ G @ ''#gid='' @ H)) \<longrightarrow>
            parseSpreadsheetInput accepted (Some (sheetsUrl sid (''?gid='' @ G @ ''#gid='' @ H)))
              = Inr (sid, Some G))
       \<and> (accepted (sheetsUrl sid (''#gid='' @ H)) \<longrightarrow>
            parseSpreadsheetInput accepted (Some (sheetsUrl sid (''#gid='' @ H)))
              = Inr (sid, Some H))
       \<and> (accepted (sheetsUrl sid (''?gid=#gid='' @ H)) \<longrightarrow>
            parseSpreadsheetInput accepted (Some (sheetsUrl sid (''?gid=#gid='' @ H)))
              = Inr (sid, Some H))
       \<and> (accepted (sheetsUrl sid []) \<longrightarrow>
            parseSpreadsheetInput accepted (Some (sheetsUrl sid [])) = Inr (sid, None))
       \<and> (parseGoogleSheetsUrl accepted u = Inr (s, g) \<longrightarrow>
            g = (if truthy (searchParams_get u ''gid'') then searchParams_get u ''gid''
                 else matchAfter ''#gid='' isDigit u))"
proof (intro conjI impI)
  have Hp: "\<forall>c\<in>set H. \<not> isC0OrSpace c"
    using assms(6) isDigit_plain by (auto simp: list_all_iff)
  have Gp: "\<forall>c\<in>set G. \<not> isC0OrSpace c \<and> c \<noteq> CHR ''#''"
    "\<forall>c\<in>set G. c \<noteq> CHR ''&'' \<and> c \<noteq> CHR ''+'' \<and> c \<noteq> CHR ''%''"
    using assms(4) isQueryValueChar_plain by (auto simp: list_all_iff)
  have frag: "\<forall>c\<in>set (''gid='' @ H). \<not> isC0OrSpace c"
    using Hp by (simp add: isC0OrSpace_def)
  note id = sheetsUrl_id[OF assms(1,2)]
  note sw = sheetsUrl_startsWith
  have tG: "truthy (Some G)" using assms(3) by (simp add: truthy_def)
  have tN: "\<not> truthy None" "\<not> truthy (Some [])" by (simp_all add: truthy_def)
  {
    assume a: "accepted (sheetsUrl sid (''?gid='' @ G @ ''#gid='' @ H))"
    have "url_query (sheetsUrl sid (CHR ''?'' # (''gid='' @ G) @ CHR ''#'' # (''gid='' @ H)))
             = ''gid='' @ G"
      using assms(2) Gp(1) frag by (intro sheetsUrl_query) (simp_all add: isC0OrSpace_def)
    then have q: "url_query (sheetsUrl sid (''?gid='' @ G @ ''#gid='' @ H)) = ''gid='' @ G"
      by simp
    have g: "searchParams_get (sheetsUrl sid (''?gid='' @ G @ ''#gid='' @ H)) ''gid'' = Some G"
      unfolding searchParams_get_def searchParams_def q gid_pair[OF Gp(2)] by simp
    show "parseSpreadsheetInput accepted (Some (sheetsUrl sid (''?gid='' @ G @ ''#gid='' @ H)))
            = Inr (sid, Some G)"
      unfolding parseSpreadsheetInput_url[where u = "sheetsUrl sid (''?gid='' @ G @ ''#gid='' @ H)" and accepted = accepted and sid = sid, OF sw id a] g using tG by simp
  }
  {
    assume a: "accepted (sheetsUrl sid (''#gid='' @ H))"
    have "url_query (sheetsUrl sid (CHR ''#'' # (''gid='' @ H))) = []"
      using assms(2) frag by (intro sheetsUrl_no_query)
    then have q: "url_query (sheetsUrl sid (''#gid='' @ H)) = []"
      by simp
    have g: "searchParams_get (sheetsUrl sid (''#gid='' @ H)) ''gid'' = None"
      unfolding searchParams_get_def searchParams_def q by simp
    have f: "matchAfter ''#gid='' isDigit (sheetsUrl sid (''#gid='' @ H)) = Some H"
      using sheetsUrl_fragment(2)[OF assms(2) _ assms(5,6), of "[]"] by simp
    show "parseSpreadsheetInput accepted (Some (sheetsUrl sid (''#gid='' @ H))) = Inr (sid, Some H)"
      unfolding parseSpreadsheetInput_url[where u = "sheetsUrl sid (''#gid='' @ H)" and accepted = accepted and sid = sid, OF sw id a] g f using tN by simp
  }
  {
    assume a: "accepted (sheetsUrl sid (''?gid=#gid='' @ H))"
    have "url_query (sheetsUrl sid (CHR ''?'' # ''gid='' @ CHR ''#'' # (''gid='' @ H))) = ''gid=''"
      using assms(2) frag by (intro sheetsUrl_query) (simp_all add: isC0OrSpace_def)
    then have q: "url_query (sheetsUrl sid (''?gid=#gid='' @ H)) = ''gid='' @ []"
      by simp
    have gp: "map urlencodedPair
                (filter (\<lambda>piece. piece \<noteq> []) (split (CHR ''&'') (''gid='' @ [])))
              = [(''gid'', [])]"
      by (rule gid_pair) simp
    have g: "searchParams_get (sheetsUrl sid (''?gid=#gid='' @ H)) ''gid'' = Some []"
      unfolding searchParams_get_def searchParams_def q gp by simp
    have f: "matchAfter ''#gid='' isDigit (sheetsUrl sid (''?gid=#gid='' @ H)) = Some H"
      using sheetsUrl_fragment(2)[OF assms(2) _ assms(5,6), of "''?gid=''"] by simp
    show "parseSpreadsheetInput accepted (Some (sheetsUrl sid (''?gid=#gid='' @ H)))
            = Inr (sid, Some H)"
      unfolding parseSpreadsheetInput_url[where u = "sheetsUrl sid (''?gid=#gid='' @ H)" and accepted = accepted and sid = sid, OF sw id a] g f using tN by simp
  }
  {
    assume a: "accepted (sheetsUrl sid [])"
    have q: "url_query (sheetsUrl sid []) = []"
      using assms(2) by (intro sheetsUrl_no_query(2)[where frag = "[]"]) simp_all
    have g: "searchParams_get (sheetsUrl sid []) ''gid'' = None"
      unfolding searchParams_get_def searchParams_def q by simp
    have "CHR ''#'' \<notin> set (sheetsUrl sid [])"
      using assms(2) isIdChar_plain by (auto simp: sheetsUrl_def list_all_iff)
    then have "\<not> includes_js (sheetsUrl sid []) ''#gid=''"
      by (rule no_hash_no_fragment)
    then have f: "matchAfter ''#gid='' isDigit (sheetsUrl sid []) = None"
      using matchAfter_includes[of "''#gid=''" isDigit "sheetsUrl sid []"]
      by (cases "matchAfter ''#gid='' isDigit (sheetsUrl sid [])") auto
    show "parseSpreadsheetInput accepted (Some (sheetsUrl sid [])) = Inr (sid, None)"
      unfolding parseSpreadsheetInput_url[where u = "sheetsUrl sid []" and accepted = accepted and sid = sid, OF sw id a] g f using tN by simp
  }
  {
    assume "parseGoogleSheetsUrl accepted u = Inr (s, g)"
    then show "g = (if truthy (searchParams_get u ''gid'') then searchParams_get u ''gid''
                    else matchAfter ''#gid='' isDigit u)"
      by (rule parseGoogleSheetsUrl_gid)
  }
qed

theorem parseSpreadsheetInput_gid_precedence_witness:
  "parseSpreadsheetInput (\<lambda>u. True)
     (Some ''https://docs.google.com/spreadsheets/d/1FmDx17Gm2aEa0andQE_JP8qcJD5XfeYhIABvZeFX_Zo/edit?gid=1850828774#gid=42'')
     = Inr (''1FmDx17Gm2aEa0andQE_JP8qcJD5XfeYhIABvZeFX_Zo'', Some ''1850828774'')
   \<and> parseSpreadsheetInput (\<lambda>u. True)
     (Some ''https://docs.google.com/spreadsheets/d/1FmDx17Gm2aEa0andQE_JP8qcJD5XfeYhIABvZeFX_Zo/edit#gid=42'')
     = Inr (''1FmDx17Gm2aEa0andQE_JP8qcJD5XfeYhIABvZeFX_Zo'', Some ''42'')
   \<and> parseSpreadsheetInput (\<lambda>u. True)
     (Some ''https://docs.google.com/spreadsheets/d/1FmDx17Gm2aEa0andQE_JP8qcJD5XfeYhIABvZeFX_Zo/edit'')
     = Inr (''1FmDx17Gm2aEa0andQE_JP8qcJD5XfeYhIABvZeFX_Zo'', None)"
  using parseSpreadsheetInput_gid_precedence
    [where sid = "''1FmDx17Gm2aEa0andQE_JP8qcJD5XfeYhIABvZeFX_Zo''" and G = "''1850828774''"
       and H = "''42''" and accepted = "\<lambda>u. True"]
  by (simp add: sheetsUrl_def isIdChar_def isQueryValueChar_def isDigit_def)

text \<open>
  Claim C3, as it is stated, fails on a query parameter \<open>gid\<close> that is present and empty:
  \<open>searchParams.get('gid')\<close> is the empty string, which \<open>if (gidParam)\<close> takes for absent,
  and the result is the gid of the fragment.
\<close>

theorem parseSpreadsheetInput_empty_query_gid:
  "searchParams_get ''https://docs.google.com/spreadsheets/d/abc/edit?gid=#gid=5'' ''gid'' = Some []
   \<and> parseSpreadsheetInput (\<lambda>u. True)
         (Some ''https://docs.google.com/spreadsheets/d/abc/edit?gid=#gid=5'')
       = Inr (''abc'', Some ''5'')"
  by code_simp


section \<open>The first client: the token cache\<close>

lemma cacheValid_iff: "0 \<le> now_check w \<Longrightarrow> cacheValid w st = cachedAndFresh w st"
  by (auto simp: cacheValid_def cachedAndFresh_def split: option.splits)

text \<open>
  Claim C8. With a clock that is not negative, \<open>getAccessToken\<close> returns the cached token,
  sends no request and leaves the cache as it is exactly when a token is cached and the
  clock is more than 300000 ms before the recorded expiry. In every other case it goes
  on to the exchange: when the request can be built, one request to the token endpoint is
  sent, and on its answer 200 the new token and the expiry, the clock at the answer plus
  \<open>expires_in\<close> seconds, are stored and the new token is returned.
\<close>

theorem getAccessToken_cache:
  assumes "0 \<le> now_check w"
  shows "(cachedAndFresh w st \<longrightarrow> getAccessToken w st = (Resolved (accessToken st), st, []))
       \<and> (\<not> cachedAndFresh w st \<longrightarrow> getAccessToken w st \<noteq> (Resolved (accessToken st), st, []))
       \<and> (\<not> cachedAndFresh w st \<and> prepare_error w = None \<longrightarrow>
            snd (snd (getAccessToken w st)) = [TokenExchange])
       \<and> (\<not> cachedAndFresh w st \<and> prepare_error w = None
            \<and> token_reply w = Reply 200 body (Some p) \<longrightarrow>
            getAccessToken w st
              = (Resolved (access_token p),
                 \<lparr>accessToken = access_token p,
                  tokenExpiry = map_option (\<lambda>s. now_reply w + s * 1000) (expires_in p)\<rparr>,
                 [TokenExchange]))"
proof (intro conjI impI)
  assume "cachedAndFresh w st"
  then show "getAccessToken w st = (Resolved (accessToken st), st, [])"
    using assms by (simp add: getAccessToken_def cacheValid_iff)
next
  assume "\<not> cachedAndFresh w st"
  then have "\<not> cacheValid w st" using assms by (simp add: cacheValid_iff)
  then show "getAccessToken w st \<noteq> (Resolved (accessToken st), st, [])"
    by (auto simp: getAccessToken_def Let_def split: option.splits http_reply.splits)
next
  assume "\<not> cachedAndFresh w st \<and> prepare_error w = None"
  then have "\<not> cacheValid w st" "prepare_error w = None" using assms by (simp_all add: cacheValid_iff)
  then show "snd (snd (getAccessToken w st)) = [TokenExchange]"
    by (auto simp: getAccessToken_def Let_def split: option.splits http_reply.splits)
next
  assume "\<not> cachedAndFresh w st \<and> prepare_error w = None
            \<and> token_reply w = Reply 200 body (Some p)"
  then have "\<not> cacheValid w st" "prepare_error w = None" "token_reply w = Reply 200 body (Some p)"
    using assms by (simp_all add: cacheValid_iff)
  then show "getAccessToken w st
              = (Resolved (access_token p),
                 \<lparr>accessToken = access_token p,
                  tokenExpiry = map_option (\<lambda>s. now_reply w + s * 1000) (expires_in p)\<rparr>,
                 [TokenExchange])"
    by (cases "expires_in p") (simp_all add: getAccessToken_def Let_def)
qed


theorem getAccessToken_cache_witness:
  "getAccessToken
     \<lparr>now_check = 1000000, prepare_error = None, token_reply = NoReply ''unused'',
      now_reply = 0, api_reply = NoReply ''unused''\<rparr>
     \<lparr>accessToken = Some ''ya29.a'', tokenExpiry = Some 1300001\<rparr>
   = (Resolved (Some ''ya29.a''), \<lparr>accessToken = Some ''ya29.a'', tokenExpiry = Some 1300001\<rparr>, [])
   \<and> getAccessToken
     \<lparr>now_check = 1000000, prepare_error = None,
      token_reply = Reply 200 ''{...}'' (Some \<lparr>access_token = Some ''ya29.b'', expires_in = Some 3600\<rparr>),
      now_reply = 1000200, api_reply = NoReply ''unused''\<rparr>
     \<lparr>accessToken = Some ''ya29.a'', tokenExpiry = Some 1300000\<rparr>
   = (Resolved (Some ''ya29.b''), \<lparr>accessToken = Some ''ya29.b'', tokenExpiry = Some 4600200\<rparr>,
      [TokenExchange])"
proof -
  let ?w1 = "\<lparr>now_check = 1000000, prepare_error = None, token_reply = NoReply ''unused'',
      now_reply = 0, api_reply = NoReply ''unused''\<rparr>"
  let ?s1 = "\<lparr>accessToken = Some ''ya29.a'', tokenExpiry = Some 1300001\<rparr>"
  let ?p = "\<lparr>access_token = Some ''ya29.b'', expires_in = Some 3600\<rparr>"
  let ?w2 = "\<lparr>now_check = 1000000, prepare_error = None,
      token_reply = Reply 200 ''{...}'' (Some ?p),
      now_reply = 1000200, api_reply = NoReply ''unused''\<rparr>"
  let ?s2 = "\<lparr>accessToken = Some ''ya29.a'', tokenExpiry = Some 1300000\<rparr>"
  have 1: "getAccessToken ?w1 ?s1 = (Resolved (Some ''ya29.a''), ?s1, [])"
    using getAccessToken_cache [where w = ?w1 and st = ?s1]
    by (simp add: cachedAndFresh_def truthy_def)
  have 2: "getAccessToken ?w2 ?s2
           = (Resolved (Some ''ya29.b''), \<lparr>accessToken = Some ''ya29.b'', tokenExpiry = Some 4600200\<rparr>,
              [TokenExchange])"
    using getAccessToken_cache [where w = ?w2 and st = ?s2 and body = "''{...}''" and p = ?p]
    by (simp add: cachedAndFresh_def truthy_def)
  show ?thesis using 1 2 by simp
qed

section \<open>The first client: every response is one envelope\<close>

lemma getAccessToken_unsettled:
  "fst (getAccessToken w st) = Unsettled \<Longrightarrow> garbled (token_reply w)"
  by (auto simp: getAccessToken_def garbled_def Let_def
      split: if_splits option.splits http_reply.splits)

lemma request_unsettled:
  "fst (request method sent w st path) = Unsettled
   \<Longrightarrow> garbled (token_reply w) \<or> garbled (api_reply w)"
proof -
  assume u: "fst (request method sent w st path) = Unsettled"
  obtain r st' reqs where g: "getAccessToken w st = (r, st', reqs)"
    by (cases "getAccessToken w st") auto
  show ?thesis
  proof (cases r)
    case (Resolved token)
    then have "garbled (api_reply w)"
      using u g by (auto simp: request_def garbled_def split: if_splits option.splits http_reply.splits)
    then show ?thesis by simp
  next
    case (Rejected m)
    then show ?thesis using u g by (simp add: request_def)
  next
    case Unsettled
    then have "fst (getAccessToken w st) = Unsettled" using g by simp
    then show ?thesis using getAccessToken_unsettled by blast
  qed
qed

lemma exactlyOne_success: "exactlyOne \<lparr>success = True, data = Some d, error = None\<rparr>"
  by (simp add: exactlyOne_def)

lemma exactlyOne_failure: "exactlyOne \<lparr>success = False, data = None, error = Some m\<rparr>"
  by (simp add: exactlyOne_def)

lemma exactlyOne_failure': "exactlyOne (failure m)"
  by (simp add: exactlyOne_def failure_def)

lemma tryAwait_request:
  "envelopeOrGarbled w (tryAwait (request method sent w st path))"
proof -
  obtain r st' reqs where g: "request method sent w st path = (r, st', reqs)"
    by (cases "request method sent w st path") auto
  show ?thesis
  proof (cases r)
    case (Resolved d)
    then show ?thesis using g by (simp add: envelopeOrGarbled_def tryAwait_def exactlyOne_success)
  next
    case (Rejected m)
    then show ?thesis using g by (simp add: envelopeOrGarbled_def tryAwait_def exactlyOne_failure)
  next
    case Unsettled
    then have "fst (request method sent w st path) = Unsettled" using g by simp
    then have "garbled (token_reply w) \<or> garbled (api_reply w)" by (rule request_unsettled)
    then show ?thesis using g Unsettled by (simp add: envelopeOrGarbled_def tryAwait_def)
  qed
qed

lemma getSpreadsheet_envelope:
  "envelopeOrGarbled w (GoogleSheetsClient_getSpreadsheet w st sid inc)"
  by (simp add: GoogleSheetsClient_getSpreadsheet_def get_def tryAwait_request)

lemma getValues_envelope:
  "envelopeOrGarbled w (GoogleSheetsClient_getValues w st sid rng opts)"
  by (simp add: GoogleSheetsClient_getValues_def get_def tryAwait_request Let_def)

lemma batchGetValues_envelope:
  "envelopeOrGarbled w (GoogleSheetsClient_batchGetValues w st sid rngs opts)"
  by (simp add: GoogleSheetsClient_batchGetValues_def get_def tryAwait_request Let_def)

lemma updateValues_envelope:
  "envelopeOrGarbled w (GoogleSheetsClient_updateValues w st sid rng vals opts)"
  by (simp add: GoogleSheetsClient_updateValues_def put_def tryAwait_request Let_def)

lemma appendValues_envelope:
  "envelopeOrGarbled w (GoogleSheetsClient_appendValues w st sid rng vals opts)"
proof -
  obtain r st' reqs where g: "getAccessToken w st = (r, st', reqs)"
    by (cases "getAccessToken w st") auto
  show ?thesis
  proof (cases r)
    case (Resolved token)
    show ?thesis
    proof (cases "api_reply w")
      case (Reply statusCode body parsed)
      then show ?thesis using g Resolved
        by (cases parsed)
          (simp_all add: GoogleSheetsClient_appendValues_def envelopeOrGarbled_def Let_def
            exactlyOne_success exactlyOne_failure garbled_def)
    next
      case (NoReply m)
      then show ?thesis using g Resolved
        by (simp add: GoogleSheetsClient_appendValues_def envelopeOrGarbled_def Let_def
            exactlyOne_failure)
    qed
  next
    case (Rejected m)
    then show ?thesis using g
      by (simp add: GoogleSheetsClient_appendValues_def envelopeOrGarbled_def Let_def
          exactlyOne_failure)
  next
    case Unsettled
    then have "fst (getAccessToken w st) = Unsettled" using g by simp
    then have "garbled (token_reply w)" by (rule getAccessToken_unsettled)
    then show ?thesis using g Unsettled
      by (simp add: GoogleSheetsClient_appendValues_def envelopeOrGarbled_def Let_def)
  qed
qed


lemma mapThrowing_sheetSummary:
  "mapThrowing sheetSummary xs = Inr ys \<Longrightarrow> \<forall>y\<in>set ys. \<exists>kvs. y = JObj kvs"
proof (induction xs arbitrary: ys)
  case Nil
  then show ?case by simp
next
  case (Cons x xs)
  then show ?case
    by (auto simp: sheetSummary_def split: sum.splits)
qed

lemma sheetSummaries_objects:
  "sheetSummaries d = Inr v \<Longrightarrow> \<exists>shs. v = JArr shs \<and> (\<forall>y\<in>set shs. \<exists>kvs. y = JObj kvs)"
  using mapThrowing_sheetSummary
  by (auto simp: sheetSummaries_def split: sum.splits js.splits)

lemma listSheets_envelope:
  "envelopeOrGarbled w (GoogleSheetsClient_listSheets w st sid)"
proof -
  obtain r st' reqs where g: "GoogleSheetsClient_getSpreadsheet w st sid False = (r, st', reqs)"
    by (cases "GoogleSheetsClient_getSpreadsheet w st sid False") auto
  have e: "envelopeOrGarbled w (r, st', reqs)"
    using getSpreadsheet_envelope[of w st sid False] g by simp
  show ?thesis
  proof (cases r)
    case (Resolved result)
    then have "exactlyOne result" using e by (simp add: envelopeOrGarbled_def)
    then show ?thesis using g Resolved
      by (simp add: GoogleSheetsClient_listSheets_def envelopeOrGarbled_def exactlyOne_success
          exactlyOne_failure split: sum.splits)
  next
    case (Rejected m)
    then show ?thesis using g
      by (simp add: GoogleSheetsClient_listSheets_def envelopeOrGarbled_def exactlyOne_failure)
  next
    case Unsettled
    then show ?thesis using g e
      by (simp add: GoogleSheetsClient_listSheets_def envelopeOrGarbled_def)
  qed
qed

lemma listSheets_success_data:
  assumes "GoogleSheetsClient_listSheets w st sid = (Resolved r, st', reqs)" and "success r"
  shows "\<exists>shs. data r = Some (JArr shs) \<and> (\<forall>y\<in>set shs. \<exists>kvs. y = JObj kvs)"
proof -
  obtain r0 st0 reqs0 where g: "GoogleSheetsClient_getSpreadsheet w st sid False = (r0, st0, reqs0)"
    by (cases "GoogleSheetsClient_getSpreadsheet w st sid False") auto
  show ?thesis
  proof (cases r0)
    case (Resolved result)
    show ?thesis
    proof (cases "success result")
      case True
      then obtain v where "sheetSummaries (case data result of None \<Rightarrow> JUndefined | Some d \<Rightarrow> d) = Inr v"
        "data r = Some v"
        using assms g Resolved
        by (auto simp: GoogleSheetsClient_listSheets_def split: sum.splits)
      then show ?thesis using sheetSummaries_objects by fastforce
    next
      case False
      then show ?thesis using assms g Resolved
        by (auto simp: GoogleSheetsClient_listSheets_def)
    qed
  next
    case (Rejected m)
    then show ?thesis using assms g by (auto simp: GoogleSheetsClient_listSheets_def)
  next
    case Unsettled
    then show ?thesis using assms g by (auto simp: GoogleSheetsClient_listSheets_def)
  qed
qed

lemma findThrowing_objects:
  "\<forall>y\<in>set shs. \<exists>kvs. y = JObj kvs \<Longrightarrow>
   \<exists>r. findThrowing (\<lambda>s. case readProperty s name of Inl e \<Rightarrow> Inl e | Inr v \<Rightarrow> Inr (v = x)) shs
        = Inr r"
proof (induction shs)
  case Nil
  then show ?case by simp
next
  case (Cons s shs)
  then obtain kvs where "s = JObj kvs" by auto
  then show ?case using Cons by (auto simp: readProperty_def)
qed

lemma sheetHandlers_getSheetByGid_envelope:
  "envelopeOrGarbled w (sheetHandlers_getSheetByGid w st a)"
proof (cases "truthy (spreadsheet_id a)")
  case False
  then show ?thesis
    by (simp add: sheetHandlers_getSheetByGid_def envelopeOrGarbled_def exactlyOne_failure')
next
  case True
  show ?thesis
  proof (cases "gid_arg a")
    case None
    then show ?thesis using True
      by (simp add: sheetHandlers_getSheetByGid_def envelopeOrGarbled_def exactlyOne_failure')
  next
    case (Some n)
    let ?sid = "or_string (spreadsheet_id a) []"
    obtain r st' reqs where g: "GoogleSheetsClient_listSheets w st ?sid = (r, st', reqs)"
      by (cases "GoogleSheetsClient_listSheets w st ?sid") auto
    have e: "envelopeOrGarbled w (r, st', reqs)"
      using listSheets_envelope[of w st ?sid] g by simp
    show ?thesis
    proof (cases r)
      case (Resolved sheetsResult)
      then have x: "exactlyOne sheetsResult" using e by (simp add: envelopeOrGarbled_def)
      show ?thesis
      proof (cases "success sheetsResult")
        case False
        then show ?thesis using True Some g Resolved x
          by (simp add: sheetHandlers_getSheetByGid_def envelopeOrGarbled_def)
      next
        case s: True
        obtain shs where d: "data sheetsResult = Some (JArr shs)"
          and o: "\<forall>y\<in>set shs. \<exists>kvs. y = JObj kvs"
          using listSheets_success_data[OF g[unfolded Resolved] s] by blast
        obtain f where f: "findThrowing (\<lambda>s. case readProperty s ''sheetId'' of
                                          Inl e \<Rightarrow> Inl e | Inr v \<Rightarrow> Inr (v = JNum n)) shs = Inr f"
          using findThrowing_objects[OF o] by blast
        show ?thesis using True Some g Resolved s d f
          by (cases f)
            (simp_all add: sheetHandlers_getSheetByGid_def envelopeOrGarbled_def
              exactlyOne_failure' exactlyOne_success)
      qed
    next
      case (Rejected m)
      then show ?thesis using e by (simp add: envelopeOrGarbled_def)
    next
      case Unsettled
      then show ?thesis using True Some g e
        by (simp add: sheetHandlers_getSheetByGid_def envelopeOrGarbled_def)
    qed
  qed
qed

text \<open>
  Claim C9. Every operation of the class \<open>GoogleSheetsClient\<close> and every handler of
  \<open>valueHandlers\<close> and \<open>sheetHandlers\<close>, in every world, from every cache and on all
  arguments, resolves with an envelope that carries exactly one of \<open>data\<close> and \<open>error\<close>:
  \<open>data\<close> with \<open>success: true\<close>, \<open>error\<close> with \<open>success: false\<close>, after a failed validation,
  a status other than 200 and a request error alike. None of them rejects. The one way not
  to return is an answer 200 whose body is not JSON, on which \<open>JSON.parse\<close> throws inside
  the response callback.
\<close>

theorem envelope_exactly_one:
  "envelopeOrGarbled w (GoogleSheetsClient_getSpreadsheet w st sid inc)
   \<and> envelopeOrGarbled w (GoogleSheetsClient_getValues w st sid rng opts)
   \<and> envelopeOrGarbled w (GoogleSheetsClient_batchGetValues w st sid rngs opts)
   \<and> envelopeOrGarbled w (GoogleSheetsClient_updateValues w st sid rng vals opts)
   \<and> envelopeOrGarbled w (GoogleSheetsClient_appendValues w st sid rng vals opts)
   \<and> envelopeOrGarbled w (GoogleSheetsClient_listSheets w st sid)
   \<and> envelopeOrGarbled w (valueHandlers_getValues w st a)
   \<and> envelopeOrGarbled w (valueHandlers_batchGetValues w st a)
   \<and> envelopeOrGarbled w (valueHandlers_updateValues w st a)
   \<and> envelopeOrGarbled w (valueHandlers_appendValues w st a)
   \<and> envelopeOrGarbled w (sheetHandlers_getSpreadsheet w st a)
   \<and> envelopeOrGarbled w (sheetHandlers_listSheets w st a)
   \<and> envelopeOrGarbled w (sheetHandlers_getSheetByGid w st a)"
proof -
  have f: "envelopeOrGarbled w (Resolved (failure m), st, [])" for m
    by (simp add: envelopeOrGarbled_def exactlyOne_failure')
  have 1: "envelopeOrGarbled w (valueHandlers_getValues w st a)"
    by (simp add: valueHandlers_getValues_def f getValues_envelope)
  have 2: "envelopeOrGarbled w (valueHandlers_batchGetValues w st a)"
    by (simp add: valueHandlers_batchGetValues_def f batchGetValues_envelope split: option.splits)
  have 3: "envelopeOrGarbled w (valueHandlers_updateValues w st a)"
    by (simp add: valueHandlers_updateValues_def f updateValues_envelope
        split: option.splits js.splits)
  have 4: "envelopeOrGarbled w (valueHandlers_appendValues w st a)"
    by (simp add: valueHandlers_appendValues_def f appendValues_envelope
        split: option.splits js.splits)
  have 5: "envelopeOrGarbled w (sheetHandlers_getSpreadsheet w st a)"
    by (simp add: sheetHandlers_getSpreadsheet_def f getSpreadsheet_envelope)
  have 6: "envelopeOrGarbled w (sheetHandlers_listSheets w st a)"
    by (simp add: sheetHandlers_listSheets_def f listSheets_envelope)
  show ?thesis
    by (intro conjI 1 2 3 4 5 6 getSpreadsheet_envelope getValues_envelope
        batchGetValues_envelope updateValues_envelope appendValues_envelope listSheets_envelope
        sheetHandlers_getSheetByGid_envelope)
qed

end
